theory Spec2Isabelle
  imports Complex_Main
begin

section \<open>Library functions the package calls\<close>

text \<open>
  Package \<open>config\<close> (file \<open>internal/config/payload.go\<close>) calls \<open>strings.ToLower\<close>,
  \<open>strings.ToUpper\<close> and \<open>strings.TrimSpace\<close> of Go's standard library,
  \<open>decimal.NewFromString\<close>, \<open>Decimal.IsPositive\<close> and \<open>decimal.Zero\<close> of
  \<open>github.com/shopspring/decimal\<close>, and \<open>json.Unmarshal\<close>. None of them is code of the
  repository.

  The three functions of package \<open>strings\<close> are a parameter of every operation below, the
  record \<open>strings\<close>, so that \<open>ToLower strings s\<close> reads as \<open>strings.ToLower(s)\<close>; and
  \<open>json.Unmarshal\<close> is a parameter of the two parsing functions. What is proved of the
  operations holds for whatever these functions compute, Go's Unicode case mapping and
  Unicode white space included. The decimal functions are modelled after their library.

  A Go string is a sequence of bytes and is modelled as \<open>string\<close> (a list of 8-bit
  characters).
\<close>

type_synonym bytes = string

record strings_pkg =
  ToLower :: "string \<Rightarrow> string"
  ToUpper :: "string \<Rightarrow> string"
  TrimSpace :: "string \<Rightarrow> string"

subsection \<open>The string functions on ASCII text\<close>

text \<open>
  The examples are run with \<open>asciiStrings\<close>: what the three functions compute on strings of
  bytes below 0x80, which is all the examples hold. There, Go maps the letters \<open>A\<close> to \<open>Z\<close>
  and \<open>a\<close> to \<open>z\<close> byte by byte and trims tab, line feed, vertical tab, form feed, carriage
  return and space.
\<close>

definition toLowerByte :: "char \<Rightarrow> char" where
  "toLowerByte c =
     (let n = (of_char c :: nat) in if 65 \<le> n \<and> n \<le> 90 then char_of (n + 32) else c)"

definition toUpperByte :: "char \<Rightarrow> char" where
  "toUpperByte c =
     (let n = (of_char c :: nat) in if 97 \<le> n \<and> n \<le> 122 then char_of (n - 32) else c)"

definition isSpace :: "char \<Rightarrow> bool" where
  "isSpace c \<longleftrightarrow> (let n = (of_char c :: nat) in (9 \<le> n \<and> n \<le> 13) \<or> n = 32)"

definition asciiStrings :: strings_pkg where
  "asciiStrings =
     \<lparr>ToLower = map toLowerByte,
      ToUpper = map toUpperByte,
      TrimSpace = (\<lambda>s. rev (dropWhile isSpace (rev (dropWhile isSpace s))))\<rparr>"

subsection \<open>Decimal numbers\<close>

text \<open>
  A \<open>decimal.Decimal\<close> is an arbitrary-precision integer \<open>value\<close> and an \<open>int32\<close> exponent
  \<open>exp\<close>, denoting \<open>value * 10 ^ exp\<close>.
\<close>

record Decimal =
  dec_value :: int
  dec_exp :: int

datatype strconv_error = ErrSyntax | ErrRange

datatype decimal_error =
    ExponentNotNumeric
  | FractionalPartTooLong
  | TooManyDots
  | CantConvert

definition isDigit :: "char \<Rightarrow> bool" where
  "isDigit c \<longleftrightarrow> (let n = (of_char c :: nat) in 48 \<le> n \<and> n \<le> 57)"

text \<open>
  \<open>strconv.ParseUint(s, 10, bitSize)\<close> reads the bytes from the left: a byte that is not a
  digit is a syntax error, and a value above \<open>2 ^ bitSize - 1\<close> is a range error as soon as
  it is reached (the checks \<open>n >= cutoff\<close> and \<open>n1 < n || n1 > maxVal\<close> of the library are
  this comparison in 64-bit arithmetic). Underscores are not accepted, the base being given.
\<close>

fun ParseUint_digits :: "int \<Rightarrow> int \<Rightarrow> string \<Rightarrow> strconv_error + int" where
  "ParseUint_digits maxVal n [] = Inr n"
| "ParseUint_digits maxVal n (c # cs) =
     (if \<not> isDigit c then Inl ErrSyntax
      else
        (let n1 = n * 10 + (of_char c - 48) in
         if maxVal < n1 then Inl ErrRange else ParseUint_digits maxVal n1 cs))"

definition ParseUint :: "string \<Rightarrow> nat \<Rightarrow> strconv_error + int" where
  "ParseUint s bitSize =
     (if s = [] then Inl ErrSyntax else ParseUint_digits (2 ^ bitSize - 1) 0 s)"

text \<open>\<open>strconv.ParseInt(s, 10, bitSize)\<close>: an optional sign, then \<open>ParseUint\<close>, then the range
  of a signed integer of \<open>bitSize\<close> bits.\<close>

definition ParseInt :: "string \<Rightarrow> nat \<Rightarrow> strconv_error + int" where
  "ParseInt s0 bitSize =
     (case s0 of
        [] \<Rightarrow> Inl ErrSyntax
      | c # cs \<Rightarrow>
          (let neg = (c = CHR ''-'');
               s = (if c = CHR ''+'' \<or> c = CHR ''-'' then cs else s0);
               cutoff = 2 ^ (bitSize - 1)
           in case ParseUint s bitSize of
                Inl err \<Rightarrow> Inl err
              | Inr un \<Rightarrow>
                  if \<not> neg \<and> cutoff \<le> un then Inl ErrRange
                  else if neg \<and> cutoff < un then Inl ErrRange
                  else Inr (if neg then - un else un)))"

text \<open>\<open>new(big.Int).SetString(s, 10)\<close>: an optional sign, then at least one digit and nothing
  else; the value is not bounded. \<open>None\<close> stands for \<open>ok = false\<close>.\<close>

fun digitsValue :: "int \<Rightarrow> string \<Rightarrow> int" where
  "digitsValue acc [] = acc"
| "digitsValue acc (c # cs) = digitsValue (acc * 10 + (of_char c - 48)) cs"

definition SetString :: "string \<Rightarrow> int option" where
  "SetString s0 =
     (case s0 of
        [] \<Rightarrow> None
      | c # cs \<Rightarrow>
          (let neg = (c = CHR ''-'');
               s = (if c = CHR ''+'' \<or> c = CHR ''-'' then cs else s0)
           in if s = [] \<or> \<not> list_all isDigit s then None
              else Some (if neg then - digitsValue 0 s else digitsValue 0 s)))"

definition isExpMark :: "char \<Rightarrow> bool" where
  "isExpMark c \<longleftrightarrow> c = CHR ''E'' \<or> c = CHR ''e''"

definition isDot :: "char \<Rightarrow> bool" where
  "isDot c \<longleftrightarrow> c = CHR ''.''"

text \<open>
  \<open>decimal.NewFromString\<close>: the text from the first \<open>E\<close> or \<open>e\<close> on is the exponent, read by
  \<open>ParseInt\<close> at 32 bits; what is before it may hold one decimal point; the digits around
  the point are joined and read as an integer (by \<open>ParseInt\<close> at 64 bits when they are at
  most 18 bytes, by \<open>big.Int\<close> otherwise), and the number of digits after the point is
  subtracted from the exponent, which must fit an \<open>int32\<close>.
\<close>

definition NewFromString :: "string \<Rightarrow> decimal_error + Decimal" where
  "NewFromString original =
     (let rest = dropWhile (\<lambda>c. \<not> isExpMark c) original in
      case (if rest = [] then Inr (original, 0)
            else (case ParseInt (tl rest) 32 of
                    Inl ErrRange \<Rightarrow> Inl FractionalPartTooLong
                  | Inl ErrSyntax \<Rightarrow> Inl ExponentNotNumeric
                  | Inr e \<Rightarrow> Inr (takeWhile (\<lambda>c. \<not> isExpMark c) original, e))) of
        Inl err \<Rightarrow> Inl err
      | Inr (val, exp0) \<Rightarrow>
          if 1 < length (filter isDot val) then Inl TooManyDots
          else
            (let fraction = drop 1 (dropWhile (\<lambda>c. \<not> isDot c) val);
                 intString = takeWhile (\<lambda>c. \<not> isDot c) val @ fraction;
                 e = exp0 - int (length fraction)
             in case (if length intString \<le> 18
                      then (case ParseInt intString 64 of Inl _ \<Rightarrow> None | Inr n \<Rightarrow> Some n)
                      else SetString intString) of
                  None \<Rightarrow> Inl CantConvert
                | Some n \<Rightarrow>
                    if e < - (2 ^ 31) \<or> 2 ^ 31 - 1 < e then Inl FractionalPartTooLong
                    else Inr \<lparr>dec_value = n, dec_exp = e\<rparr>))"

text \<open>\<open>Decimal.IsPositive\<close> is \<open>Sign() == 1\<close>, the sign of the integer value.\<close>

definition IsPositive :: "Decimal \<Rightarrow> bool" where
  "IsPositive d \<longleftrightarrow> 0 < dec_value d"

text \<open>\<open>decimal.Zero\<close> is \<open>New(0, 1)\<close>.\<close>

definition decimal_Zero :: Decimal where
  "decimal_Zero = \<lparr>dec_value = 0, dec_exp = 1\<rparr>"

subsection \<open>Dynamically typed values\<close>

text \<open>
  What \<open>encoding/json\<close> stores in an \<open>interface{}\<close>: \<open>nil\<close>, \<open>bool\<close>, \<open>float64\<close> (a finite
  binary fraction, kept here as a rational), \<open>string\<close>, \<open>[]interface{}\<close> and
  \<open>map[string]interface{}\<close>.
\<close>

datatype json_value =
    JNull
  | JBool bool
  | JNumber rat
  | JString string
  | JArray "json_value list"
  | JObject "(string \<times> json_value) list"

text \<open>
  The two-valued type assertion \<open>m[key].(string)\<close> on a \<open>map[string]interface{}\<close>: a missing
  key (also of a \<open>nil\<close> map) reads as the \<open>nil\<close> interface, and every dynamic type but
  \<open>string\<close> gives \<open>ok = false\<close>. \<open>None\<close> stands for \<open>ok = false\<close>.
\<close>

definition stringAt :: "(string \<rightharpoonup> json_value) \<Rightarrow> string \<Rightarrow> string option" where
  "stringAt m key = (case m key of Some (JString s) \<Rightarrow> Some s | _ \<Rightarrow> None)"

section \<open>The data model of package \<open>config\<close>\<close>

subsection \<open>The nested payload, \<open>DCAPayload\<close>\<close>

text \<open>A pointer to a struct is an \<open>option\<close>: \<open>None\<close> is \<open>nil\<close>. Fields that several structs
  share are written with the struct's name, as in \<open>DCAPayload.Version\<close>.\<close>

record CredentialSource =
  Type :: string
  Config :: "string \<rightharpoonup> json_value"

record ExchangeConfig =
  Name :: string
  Credentials :: CredentialSource
  Region :: string

record DCAStrategy =
  Symbol :: string
  QuoteAmount :: string
  BalanceThreshold :: string
  OrderType :: string

record TelegramConfig =
  Type :: string
  Config :: "string \<rightharpoonup> json_value"

record NotificationConfig =
  Telegram :: "TelegramConfig option"

record RuntimeFlags =
  DryRun :: bool

record DCAPayload =
  Version :: string
  Exchange :: ExchangeConfig
  Strategy :: DCAStrategy
  Notifications :: NotificationConfig
  Flags :: RuntimeFlags

subsection \<open>The legacy payload, \<open>PayloadV2\<close>\<close>

text \<open>The anonymous structs of \<open>PayloadV2\<close> are named after the path of their field.\<close>

record PayloadV2_DCA =
  Symbol :: string
  TargetAsset :: string
  OrderCurrency :: string
  QuoteAmount :: string
  BalanceThreshold :: string

record PayloadV2_OKX_Inline =
  APIKey :: string
  APISecret :: string
  Passphrase :: string

record PayloadV2_OKX_Env =
  APIKeyEnv :: string
  APISecretEnv :: string
  PassphraseEnv :: string

record PayloadV2_OKX =
  APIKeyPath :: string
  APISecretPath :: string
  PassphrasePath :: string
  Inline :: "PayloadV2_OKX_Inline option"
  Env :: "PayloadV2_OKX_Env option"

record PayloadV2_Binance_Inline =
  APIKey :: string
  APISecret :: string

record PayloadV2_Binance_Env =
  APIKeyEnv :: string
  APISecretEnv :: string

record PayloadV2_Binance =
  APIKeyPath :: string
  APISecretPath :: string
  Inline :: "PayloadV2_Binance_Inline option"
  Env :: "PayloadV2_Binance_Env option"

record PayloadV2_Credentials =
  OKX :: "PayloadV2_OKX option"
  Binance :: "PayloadV2_Binance option"

record PayloadV2_Telegram_Inline =
  BotToken :: string

record PayloadV2_Telegram_Env =
  BotTokenEnv :: string

record PayloadV2_Telegram =
  BotTokenPath :: string
  ChatID :: string
  Sink :: string
  Inline :: "PayloadV2_Telegram_Inline option"
  Env :: "PayloadV2_Telegram_Env option"

record PayloadV2_Notifications =
  Telegram :: "PayloadV2_Telegram option"

record PayloadV2_Flags =
  DryRun :: bool

record PayloadV2 =
  Version :: string
  Exchange :: string
  DCA :: PayloadV2_DCA
  Credentials :: PayloadV2_Credentials
  Notifications :: PayloadV2_Notifications
  Flags :: PayloadV2_Flags

subsection \<open>The plan, \<open>Unified\<close>\<close>

record Unified_OKX =
  APIKeyPath :: string
  APISecretPath :: string
  PassphrasePath :: string

record Unified_OKXInline =
  APIKey :: string
  APISecret :: string
  Passphrase :: string

record Unified_Binance =
  APIKeyPath :: string
  APISecretPath :: string

record Unified_Telegram =
  BotTokenPath :: string
  ChatID :: string
  Sink :: string

record Unified =
  Exchange :: string
  Symbol :: string
  QuoteAmount :: Decimal
  BalanceThreshold :: Decimal
  DryRun :: bool
  OKX :: "Unified_OKX option"
  OKXInline :: "Unified_OKXInline option"
  Binance :: "Unified_Binance option"
  Telegram :: "Unified_Telegram option"

subsection \<open>Errors\<close>

text \<open>One constructor for each \<open>fmt.Errorf\<close> of the package, with what the message is
  formatted from: the wrapped error of \<open>%w\<close>, the quoted string of \<open>%q\<close>.\<close>

datatype error =
    InvalidJSON string
  | VersionMustBeV2
  | ExchangeNameRequired
  | StrategySymbolRequired
  | StrategyQuoteAmountRequired
  | InvalidQuoteAmount decimal_error
  | InvalidBalanceThreshold decimal_error
  | ExchangeRequired
  | DcaSymbolRequired
  | DcaQuoteAmountInvalid string
  | DcaBalanceThresholdInvalid string

section \<open>The operations of package \<open>config\<close>\<close>

text \<open>
  \<open>strings\<close> stands for Go's package of that name. \<open>unmarshal\<close> stands for
  \<open>json.Unmarshal(raw, &payload)\<close> on a zero-valued struct: it gives the decoder's error or
  the struct it has filled.
\<close>

subsection \<open>\<open>ParseDCAPayload\<close>\<close>

definition ParseDCAPayload ::
  "strings_pkg \<Rightarrow> (bytes \<Rightarrow> string + DCAPayload) \<Rightarrow> bytes \<Rightarrow> error + DCAPayload" where
  "ParseDCAPayload strings unmarshal raw =
     (case unmarshal raw of
        Inl err \<Rightarrow> Inl (InvalidJSON err)
      | Inr payload \<Rightarrow>
          if ToLower strings (DCAPayload.Version payload) \<noteq> ''v2'' then Inl VersionMustBeV2
          else if Name (DCAPayload.Exchange payload) = [] then Inl ExchangeNameRequired
          else if DCAStrategy.Symbol (Strategy payload) = [] then Inl StrategySymbolRequired
          else if DCAStrategy.QuoteAmount (Strategy payload) = []
            then Inl StrategyQuoteAmountRequired
          else
            (case NewFromString (DCAStrategy.QuoteAmount (Strategy payload)) of
               Inl err \<Rightarrow> Inl (InvalidQuoteAmount err)
             | Inr _ \<Rightarrow>
                 (case (if DCAStrategy.BalanceThreshold (Strategy payload) \<noteq> []
                        then NewFromString (DCAStrategy.BalanceThreshold (Strategy payload))
                        else Inr decimal_Zero) of
                    Inl err \<Rightarrow> Inl (InvalidBalanceThreshold err)
                  | Inr _ \<Rightarrow>
                      Inr (if OrderType (Strategy payload) = []
                           then payload\<lparr>Strategy := (Strategy payload)\<lparr>OrderType := ''market''\<rparr>\<rparr>
                           else payload))))"

subsection \<open>\<open>populateUnifiedCredentials\<close>\<close>

text \<open>The method writes through the pointer \<open>unified\<close>; the model returns the written plan.
  The method's error result is \<open>nil\<close> on every path.\<close>

definition populateUnifiedCredentials ::
  "strings_pkg \<Rightarrow> DCAPayload \<Rightarrow> Unified \<Rightarrow> error + Unified" where
  "populateUnifiedCredentials strings p unified =
     (let creds = ExchangeConfig.Credentials (DCAPayload.Exchange p);
          kind = CredentialSource.Type creds;
          cfg = CredentialSource.Config creds
      in
      if ToLower strings (Name (DCAPayload.Exchange p)) = ''binance'' then
        (let b0 = \<lparr>Unified_Binance.APIKeyPath = [], Unified_Binance.APISecretPath = []\<rparr>;
             b =
               (if kind = ''ssm'' then
                  (let b1 = (case stringAt cfg ''apiKeyPath'' of
                               Some keyPath \<Rightarrow> b0\<lparr>Unified_Binance.APIKeyPath := keyPath\<rparr>
                             | None \<Rightarrow> b0)
                   in (case stringAt cfg ''apiSecretPath'' of
                         Some secretPath \<Rightarrow> b1\<lparr>Unified_Binance.APISecretPath := secretPath\<rparr>
                       | None \<Rightarrow> b1))
                else b0)
         in Inr (unified\<lparr>Unified.Binance := Some b\<rparr>))
      else if ToLower strings (Name (DCAPayload.Exchange p)) = ''okx'' then
        (let o0 = \<lparr>Unified_OKX.APIKeyPath = [], Unified_OKX.APISecretPath = [],
                   Unified_OKX.PassphrasePath = []\<rparr>;
             ok =
               (if kind = ''ssm'' then
                  (let o1 = (case stringAt cfg ''apiKeyPath'' of
                               Some keyPath \<Rightarrow> o0\<lparr>Unified_OKX.APIKeyPath := keyPath\<rparr>
                             | None \<Rightarrow> o0);
                       o2 = (case stringAt cfg ''apiSecretPath'' of
                               Some secretPath \<Rightarrow> o1\<lparr>Unified_OKX.APISecretPath := secretPath\<rparr>
                             | None \<Rightarrow> o1)
                   in (case stringAt cfg ''passphrasePath'' of
                         Some passphrasePath \<Rightarrow>
                           o2\<lparr>Unified_OKX.PassphrasePath := passphrasePath\<rparr>
                       | None \<Rightarrow> o2))
                else o0);
             unified1 = unified\<lparr>Unified.OKX := Some ok\<rparr>
         in
         if kind = ''inline'' then
           (let i0 = \<lparr>Unified_OKXInline.APIKey = [], Unified_OKXInline.APISecret = [],
                      Unified_OKXInline.Passphrase = []\<rparr>;
                i1 = (case stringAt cfg ''apiKey'' of
                        Some key \<Rightarrow> i0\<lparr>Unified_OKXInline.APIKey := key\<rparr>
                      | None \<Rightarrow> i0);
                i2 = (case stringAt cfg ''apiSecret'' of
                        Some secret \<Rightarrow> i1\<lparr>Unified_OKXInline.APISecret := secret\<rparr>
                      | None \<Rightarrow> i1);
                i3 = (case stringAt cfg ''passphrase'' of
                        Some passphrase \<Rightarrow> i2\<lparr>Unified_OKXInline.Passphrase := passphrase\<rparr>
                      | None \<Rightarrow> i2)
            in Inr (unified1\<lparr>Unified.OKXInline := Some i3\<rparr>))
         else Inr unified1)
      else Inr unified)"

subsection \<open>\<open>ToUnified\<close>\<close>

definition ToUnified :: "strings_pkg \<Rightarrow> DCAPayload \<Rightarrow> error + Unified" where
  "ToUnified strings p =
     (case NewFromString (DCAStrategy.QuoteAmount (Strategy p)) of
        Inl err \<Rightarrow> Inl (InvalidQuoteAmount err)
      | Inr qa \<Rightarrow>
          (case (if DCAStrategy.BalanceThreshold (Strategy p) \<noteq> []
                 then NewFromString (DCAStrategy.BalanceThreshold (Strategy p))
                 else Inr decimal_Zero) of
             Inl err \<Rightarrow> Inl (InvalidBalanceThreshold err)
           | Inr bt \<Rightarrow>
               (case populateUnifiedCredentials strings p
                       \<lparr>Unified.Exchange = ToLower strings (Name (DCAPayload.Exchange p)),
                        Unified.Symbol = ToUpper strings (DCAStrategy.Symbol (Strategy p)),
                        Unified.QuoteAmount = qa,
                        Unified.BalanceThreshold = bt,
                        Unified.DryRun = RuntimeFlags.DryRun (DCAPayload.Flags p),
                        Unified.OKX = None, Unified.OKXInline = None,
                        Unified.Binance = None, Unified.Telegram = None\<rparr> of
                  Inl err \<Rightarrow> Inl err
                | Inr unified \<Rightarrow>
                    (case NotificationConfig.Telegram (DCAPayload.Notifications p) of
                       None \<Rightarrow> Inr unified
                     | Some tg \<Rightarrow>
                         (let t0 = \<lparr>Unified_Telegram.BotTokenPath = [],
                                    Unified_Telegram.ChatID = [], Unified_Telegram.Sink = []\<rparr>;
                              t1 = (case stringAt (TelegramConfig.Config tg) ''chatId'' of
                                      Some chatID \<Rightarrow> t0\<lparr>Unified_Telegram.ChatID := chatID\<rparr>
                                    | None \<Rightarrow> t0);
                              t2 = (if TelegramConfig.Type tg = ''ssm'' then
                                      (case stringAt (TelegramConfig.Config tg) ''botTokenPath'' of
                                         Some path \<Rightarrow> t1\<lparr>Unified_Telegram.BotTokenPath := path\<rparr>
                                       | None \<Rightarrow> t1)
                                    else t1)
                          in Inr (unified\<lparr>Unified.Telegram := Some t2\<rparr>))))))"

subsection \<open>\<open>ParseUnifiedV2\<close>\<close>

definition ParseUnifiedV2 ::
  "strings_pkg \<Rightarrow> (bytes \<Rightarrow> string + PayloadV2) \<Rightarrow> bytes \<Rightarrow> error + Unified" where
  "ParseUnifiedV2 strings unmarshal raw =
     (case unmarshal raw of
        Inl err \<Rightarrow> Inl (InvalidJSON err)
      | Inr v2 \<Rightarrow>
          if ToLower strings (PayloadV2.Version v2) \<noteq> ''v2'' then Inl VersionMustBeV2
          else
            (let ex = ToLower strings (TrimSpace strings (PayloadV2.Exchange v2)) in
             if ex = [] then Inl ExchangeRequired
             else
               (case (let symbol = ToUpper strings (TrimSpace strings (PayloadV2_DCA.Symbol (DCA v2))) in
                      if symbol = [] then
                        (if TargetAsset (DCA v2) = [] \<or> OrderCurrency (DCA v2) = []
                         then Inl DcaSymbolRequired
                         else Inr (ToUpper strings (TargetAsset (DCA v2)) @ ''-'' @
                                   ToUpper strings (OrderCurrency (DCA v2))))
                      else Inr symbol) of
                  Inl err \<Rightarrow> Inl err
                | Inr symbol \<Rightarrow>
                    (case NewFromString (PayloadV2_DCA.QuoteAmount (DCA v2)) of
                       Inl _ \<Rightarrow> Inl (DcaQuoteAmountInvalid (PayloadV2_DCA.QuoteAmount (DCA v2)))
                     | Inr qa \<Rightarrow>
                         if \<not> IsPositive qa
                         then Inl (DcaQuoteAmountInvalid (PayloadV2_DCA.QuoteAmount (DCA v2)))
                         else
                           (let s = TrimSpace strings (PayloadV2_DCA.BalanceThreshold (DCA v2)) in
                            case (if s \<noteq> [] then NewFromString s else Inr decimal_Zero) of
                              Inl _ \<Rightarrow> Inl (DcaBalanceThresholdInvalid s)
                            | Inr bt \<Rightarrow>
                                (let u = \<lparr>Unified.Exchange = ex, Unified.Symbol = symbol,
                                          Unified.QuoteAmount = qa,
                                          Unified.BalanceThreshold = bt,
                                          Unified.DryRun = PayloadV2_Flags.DryRun (PayloadV2.Flags v2),
                                          Unified.OKX = None, Unified.OKXInline = None,
                                          Unified.Binance = None, Unified.Telegram = None\<rparr>;
                                     u1 =
                                       (case PayloadV2_Credentials.OKX (PayloadV2.Credentials v2) of
                                          None \<Rightarrow> u
                                        | Some okx \<Rightarrow>
                                            (let u' = u\<lparr>Unified.OKX := Some
                                                   \<lparr>Unified_OKX.APIKeyPath = PayloadV2_OKX.APIKeyPath okx,
                                                    Unified_OKX.APISecretPath = PayloadV2_OKX.APISecretPath okx,
                                                    Unified_OKX.PassphrasePath = PayloadV2_OKX.PassphrasePath okx\<rparr>\<rparr>
                                             in case PayloadV2_OKX.Inline okx of
                                                  None \<Rightarrow> u'
                                                | Some inl \<Rightarrow>
                                                    u'\<lparr>Unified.OKXInline := Some
                                                       \<lparr>Unified_OKXInline.APIKey = PayloadV2_OKX_Inline.APIKey inl,
                                                        Unified_OKXInline.APISecret = PayloadV2_OKX_Inline.APISecret inl,
                                                        Unified_OKXInline.Passphrase = PayloadV2_OKX_Inline.Passphrase inl\<rparr>\<rparr>));
                                     u2 =
                                       (case PayloadV2_Credentials.Binance (PayloadV2.Credentials v2) of
                                          None \<Rightarrow> u1
                                        | Some bin \<Rightarrow>
                                            u1\<lparr>Unified.Binance := Some
                                               \<lparr>Unified_Binance.APIKeyPath = PayloadV2_Binance.APIKeyPath bin,
                                                Unified_Binance.APISecretPath = PayloadV2_Binance.APISecretPath bin\<rparr>\<rparr>);
                                     u3 =
                                       (case PayloadV2_Notifications.Telegram (PayloadV2.Notifications v2) of
                                          None \<Rightarrow> u2
                                        | Some tg \<Rightarrow>
                                            u2\<lparr>Unified.Telegram := Some
                                               \<lparr>Unified_Telegram.BotTokenPath = PayloadV2_Telegram.BotTokenPath tg,
                                                Unified_Telegram.ChatID = PayloadV2_Telegram.ChatID tg,
                                                Unified_Telegram.Sink = ToLower strings (TrimSpace strings (PayloadV2_Telegram.Sink tg))\<rparr>\<rparr>)
                                 in Inr u3))))))"

section \<open>Shorthands and example payloads\<close>

abbreviation exchangeName :: "DCAPayload \<Rightarrow> string" where
  "exchangeName p \<equiv> Name (DCAPayload.Exchange p)"

abbreviation credentialKind :: "DCAPayload \<Rightarrow> string" where
  "credentialKind p \<equiv> CredentialSource.Type (ExchangeConfig.Credentials (DCAPayload.Exchange p))"

abbreviation credentialBag :: "DCAPayload \<Rightarrow> (string \<rightharpoonup> json_value)" where
  "credentialBag p \<equiv> CredentialSource.Config (ExchangeConfig.Credentials (DCAPayload.Exchange p))"

abbreviation strategySymbol :: "DCAPayload \<Rightarrow> string" where
  "strategySymbol p \<equiv> DCAStrategy.Symbol (Strategy p)"

abbreviation quoteAmountText :: "DCAPayload \<Rightarrow> string" where
  "quoteAmountText p \<equiv> DCAStrategy.QuoteAmount (Strategy p)"

abbreviation thresholdText :: "DCAPayload \<Rightarrow> string" where
  "thresholdText p \<equiv> DCAStrategy.BalanceThreshold (Strategy p)"

abbreviation telegramBlock :: "DCAPayload \<Rightarrow> TelegramConfig option" where
  "telegramBlock p \<equiv> NotificationConfig.Telegram (DCAPayload.Notifications p)"

text \<open>The string a bag holds under a key, and the empty string (the zero value of a Go
  string) when the key is missing or holds anything but a string.\<close>

abbreviation stringOrEmpty :: "(string \<rightharpoonup> json_value) \<Rightarrow> string \<Rightarrow> string" where
  "stringOrEmpty m key \<equiv> (case stringAt m key of Some s \<Rightarrow> s | None \<Rightarrow> [])"

text \<open>A decoder for the examples: \<open>json.Unmarshal\<close> on a document that decodes to \<open>v\<close>.\<close>

definition decodesTo :: "'a \<Rightarrow> bytes \<Rightarrow> string + 'a" where
  "decodesTo v raw = Inr v"

text \<open>The payloads of \<open>TestDCAPayload_ToUnified\<close>, with the bag of the round-trip property
  and a lower-case symbol in the first, a mixed-case exchange name and a Telegram block with
  a tag outside \<open>ssm\<close>, \<open>inline\<close>, \<open>env\<close> in the second.\<close>

definition binance_ssm_payload :: DCAPayload where
  "binance_ssm_payload =
     \<lparr>DCAPayload.Version = ''v2'',
      DCAPayload.Exchange =
        \<lparr>Name = ''binance'',
         ExchangeConfig.Credentials =
           \<lparr>CredentialSource.Type = ''ssm'',
            CredentialSource.Config =
              [''apiKeyPath'' \<mapsto> JString ''/a'', ''apiSecretPath'' \<mapsto> JString ''/b'']\<rparr>,
         Region = []\<rparr>,
      Strategy =
        \<lparr>DCAStrategy.Symbol = ''btc-usdt'', DCAStrategy.QuoteAmount = ''10.00'',
         DCAStrategy.BalanceThreshold = ''5000.00'', OrderType = ''market''\<rparr>,
      DCAPayload.Notifications = \<lparr>NotificationConfig.Telegram = None\<rparr>,
      DCAPayload.Flags = \<lparr>RuntimeFlags.DryRun = True\<rparr>\<rparr>"

definition okx_inline_payload :: DCAPayload where
  "okx_inline_payload =
     \<lparr>DCAPayload.Version = ''v2'',
      DCAPayload.Exchange =
        \<lparr>Name = ''OKX'',
         ExchangeConfig.Credentials =
           \<lparr>CredentialSource.Type = ''inline'',
            CredentialSource.Config =
              [''apiKey'' \<mapsto> JString ''k'', ''apiSecret'' \<mapsto> JString ''s'',
               ''passphrase'' \<mapsto> JString ''p'']\<rparr>,
         Region = []\<rparr>,
      Strategy =
        \<lparr>DCAStrategy.Symbol = ''ETH-USDT'', DCAStrategy.QuoteAmount = ''20.50'',
         DCAStrategy.BalanceThreshold = [], OrderType = ''market''\<rparr>,
      DCAPayload.Notifications =
        \<lparr>NotificationConfig.Telegram = Some
           \<lparr>TelegramConfig.Type = ''webhook'',
            TelegramConfig.Config =
              [''chatId'' \<mapsto> JString ''123456789'', ''botTokenPath'' \<mapsto> JString ''/tg/token'']\<rparr>\<rparr>,
      DCAPayload.Flags = \<lparr>RuntimeFlags.DryRun = False\<rparr>\<rparr>"

text \<open>A Binance payload whose bag holds a number under \<open>apiKeyPath\<close> and nothing under
  \<open>apiSecretPath\<close>, and whose Telegram block holds a number under \<open>chatId\<close>.\<close>

definition binance_mistyped_payload :: DCAPayload where
  "binance_mistyped_payload =
     \<lparr>DCAPayload.Version = ''v2'',
      DCAPayload.Exchange =
        \<lparr>Name = ''binance'',
         ExchangeConfig.Credentials =
           \<lparr>CredentialSource.Type = ''ssm'',
            CredentialSource.Config = [''apiKeyPath'' \<mapsto> JNumber 7]\<rparr>,
         Region = []\<rparr>,
      Strategy =
        \<lparr>DCAStrategy.Symbol = ''BTC-USDT'', DCAStrategy.QuoteAmount = ''10'',
         DCAStrategy.BalanceThreshold = [], OrderType = ''market''\<rparr>,
      DCAPayload.Notifications =
        \<lparr>NotificationConfig.Telegram = Some
           \<lparr>TelegramConfig.Type = ''ssm'',
            TelegramConfig.Config = [''chatId'' \<mapsto> JNumber 123456789]\<rparr>\<rparr>,
      DCAPayload.Flags = \<lparr>RuntimeFlags.DryRun = False\<rparr>\<rparr>"

text \<open>An exchange the unifier does not know.\<close>

definition kraken_payload :: DCAPayload where
  "kraken_payload =
     \<lparr>DCAPayload.Version = ''v2'',
      DCAPayload.Exchange =
        \<lparr>Name = ''kraken'',
         ExchangeConfig.Credentials =
           \<lparr>CredentialSource.Type = ''ssm'',
            CredentialSource.Config =
              [''apiKeyPath'' \<mapsto> JString ''/a'', ''apiSecretPath'' \<mapsto> JString ''/b'']\<rparr>,
         Region = []\<rparr>,
      Strategy =
        \<lparr>DCAStrategy.Symbol = ''BTC-USD'', DCAStrategy.QuoteAmount = ''10'',
         DCAStrategy.BalanceThreshold = [], OrderType = ''market''\<rparr>,
      DCAPayload.Notifications = \<lparr>NotificationConfig.Telegram = None\<rparr>,
      DCAPayload.Flags = \<lparr>RuntimeFlags.DryRun = False\<rparr>\<rparr>"

text \<open>Negative amounts, and an exchange name and a symbol of blanks only.\<close>

definition negative_amount_payload :: DCAPayload where
  "negative_amount_payload =
     \<lparr>DCAPayload.Version = ''v2'',
      DCAPayload.Exchange =
        \<lparr>Name = ''binance'',
         ExchangeConfig.Credentials =
           \<lparr>CredentialSource.Type = ''ssm'', CredentialSource.Config = Map.empty\<rparr>,
         Region = []\<rparr>,
      Strategy =
        \<lparr>DCAStrategy.Symbol = ''BTC-USDT'', DCAStrategy.QuoteAmount = ''-5'',
         DCAStrategy.BalanceThreshold = ''-1.5'', OrderType = ''market''\<rparr>,
      DCAPayload.Notifications = \<lparr>NotificationConfig.Telegram = None\<rparr>,
      DCAPayload.Flags = \<lparr>RuntimeFlags.DryRun = False\<rparr>\<rparr>"

definition blank_names_payload :: DCAPayload where
  "blank_names_payload =
     \<lparr>DCAPayload.Version = ''V2'',
      DCAPayload.Exchange =
        \<lparr>Name = ''  '',
         ExchangeConfig.Credentials =
           \<lparr>CredentialSource.Type = [], CredentialSource.Config = Map.empty\<rparr>,
         Region = []\<rparr>,
      Strategy =
        \<lparr>DCAStrategy.Symbol = '' '', DCAStrategy.QuoteAmount = ''10'',
         DCAStrategy.BalanceThreshold = [], OrderType = []\<rparr>,
      DCAPayload.Notifications = \<lparr>NotificationConfig.Telegram = None\<rparr>,
      DCAPayload.Flags = \<lparr>RuntimeFlags.DryRun = False\<rparr>\<rparr>"

text \<open>Legacy payloads: the one of the specification's legacy example, as a function of its
  exchange, symbol, quote amount, credential blocks and Telegram block.\<close>

definition legacy_payload ::
  "string \<Rightarrow> string \<Rightarrow> string \<Rightarrow> PayloadV2_Credentials \<Rightarrow> PayloadV2_Telegram option \<Rightarrow> PayloadV2"
where
  "legacy_payload exchange symbol quoteAmount credentials telegram =
     \<lparr>PayloadV2.Version = ''v2'',
      PayloadV2.Exchange = exchange,
      DCA = \<lparr>PayloadV2_DCA.Symbol = symbol, TargetAsset = ''btc'', OrderCurrency = ''usdt'',
             PayloadV2_DCA.QuoteAmount = quoteAmount, PayloadV2_DCA.BalanceThreshold = []\<rparr>,
      PayloadV2.Credentials = credentials,
      PayloadV2.Notifications = \<lparr>PayloadV2_Notifications.Telegram = telegram\<rparr>,
      PayloadV2.Flags = \<lparr>PayloadV2_Flags.DryRun = False\<rparr>\<rparr>"

definition no_credentials :: PayloadV2_Credentials where
  "no_credentials = \<lparr>PayloadV2_Credentials.OKX = None, PayloadV2_Credentials.Binance = None\<rparr>"

definition okx_block :: PayloadV2_OKX where
  "okx_block =
     \<lparr>PayloadV2_OKX.APIKeyPath = ''/okx/key'', PayloadV2_OKX.APISecretPath = ''/okx/secret'',
      PayloadV2_OKX.PassphrasePath = ''/okx/pass'',
      PayloadV2_OKX.Inline = Some \<lparr>PayloadV2_OKX_Inline.APIKey = ''k'',
        PayloadV2_OKX_Inline.APISecret = ''s'', PayloadV2_OKX_Inline.Passphrase = ''p''\<rparr>,
      PayloadV2_OKX.Env = Some \<lparr>PayloadV2_OKX_Env.APIKeyEnv = ''OKX_KEY'',
        PayloadV2_OKX_Env.APISecretEnv = ''OKX_SECRET'', PassphraseEnv = ''OKX_PASS''\<rparr>\<rparr>"

definition binance_block :: PayloadV2_Binance where
  "binance_block =
     \<lparr>PayloadV2_Binance.APIKeyPath = ''/bn/key'', PayloadV2_Binance.APISecretPath = ''/bn/secret'',
      PayloadV2_Binance.Inline = Some \<lparr>PayloadV2_Binance_Inline.APIKey = ''bk'',
        PayloadV2_Binance_Inline.APISecret = ''bs''\<rparr>,
      PayloadV2_Binance.Env = Some \<lparr>PayloadV2_Binance_Env.APIKeyEnv = ''BN_KEY'',
        PayloadV2_Binance_Env.APISecretEnv = ''BN_SECRET''\<rparr>\<rparr>"

definition telegram_block :: PayloadV2_Telegram where
  "telegram_block =
     \<lparr>PayloadV2_Telegram.BotTokenPath = ''/tg/token'', PayloadV2_Telegram.ChatID = ''42'',
      PayloadV2_Telegram.Sink = '' StdOut '',
      PayloadV2_Telegram.Inline = Some \<lparr>BotToken = ''secret-token''\<rparr>,
      PayloadV2_Telegram.Env = Some \<lparr>BotTokenEnv = ''TG_TOKEN''\<rparr>\<rparr>"

definition both_credentials :: PayloadV2_Credentials where
  "both_credentials =
     \<lparr>PayloadV2_Credentials.OKX = Some okx_block,
      PayloadV2_Credentials.Binance = Some binance_block\<rparr>"

text \<open>The first payload of \<open>TestDCAPayload_ToUnified_Errors\<close>: the zero value of every
  field but the quote amount.\<close>

definition invalid_quote_payload :: DCAPayload where
  "invalid_quote_payload =
     \<lparr>DCAPayload.Version = [],
      DCAPayload.Exchange =
        \<lparr>Name = [],
         ExchangeConfig.Credentials =
           \<lparr>CredentialSource.Type = [], CredentialSource.Config = Map.empty\<rparr>,
         Region = []\<rparr>,
      Strategy =
        \<lparr>DCAStrategy.Symbol = [], DCAStrategy.QuoteAmount = ''invalid'',
         DCAStrategy.BalanceThreshold = [], OrderType = []\<rparr>,
      DCAPayload.Notifications = \<lparr>NotificationConfig.Telegram = None\<rparr>,
      DCAPayload.Flags = \<lparr>RuntimeFlags.DryRun = False\<rparr>\<rparr>"

section \<open>Properties\<close>

subsection \<open>Reading the bag, and the plan of the unifier\<close>

lemma stringAt_None_iff: "stringAt m k = None \<longleftrightarrow> (\<forall>s. m k \<noteq> Some (JString s))"
  by (auto simp: stringAt_def split: option.splits json_value.splits)

lemma stringAt_Some_iff: "stringAt m k = Some s \<longleftrightarrow> m k = Some (JString s)"
  by (auto simp: stringAt_def split: option.splits json_value.splits)

lemma populate_binance:
  assumes "ToLower strings (exchangeName p) = ''binance''"
  shows "populateUnifiedCredentials strings p u =
    Inr (u\<lparr>Unified.Binance := Some
      \<lparr>Unified_Binance.APIKeyPath =
         (if credentialKind p = ''ssm'' then stringOrEmpty (credentialBag p) ''apiKeyPath'' else []),
       Unified_Binance.APISecretPath =
         (if credentialKind p = ''ssm'' then stringOrEmpty (credentialBag p) ''apiSecretPath'' else [])\<rparr>\<rparr>)"
  using assms by (simp add: populateUnifiedCredentials_def Let_def split: option.splits)

lemma populate_okx:
  assumes "ToLower strings (exchangeName p) = ''okx''"
  shows "populateUnifiedCredentials strings p u =
    Inr (u\<lparr>Unified.OKX := Some
      \<lparr>Unified_OKX.APIKeyPath =
         (if credentialKind p = ''ssm'' then stringOrEmpty (credentialBag p) ''apiKeyPath'' else []),
       Unified_OKX.APISecretPath =
         (if credentialKind p = ''ssm'' then stringOrEmpty (credentialBag p) ''apiSecretPath'' else []),
       Unified_OKX.PassphrasePath =
         (if credentialKind p = ''ssm'' then stringOrEmpty (credentialBag p) ''passphrasePath'' else [])\<rparr>,
      Unified.OKXInline :=
        (if credentialKind p = ''inline''
         then Some \<lparr>Unified_OKXInline.APIKey = stringOrEmpty (credentialBag p) ''apiKey'',
               Unified_OKXInline.APISecret = stringOrEmpty (credentialBag p) ''apiSecret'',
               Unified_OKXInline.Passphrase = stringOrEmpty (credentialBag p) ''passphrase''\<rparr>
         else Unified.OKXInline u)\<rparr>)"
  using assms by (simp add: populateUnifiedCredentials_def Let_def split: option.splits)

lemma populate_other:
  assumes "ToLower strings (exchangeName p) \<noteq> ''binance''" and "ToLower strings (exchangeName p) \<noteq> ''okx''"
  shows "populateUnifiedCredentials strings p u = Inr u"
  using assms by (simp add: populateUnifiedCredentials_def Let_def)

lemma populate_total: "\<exists>u'. populateUnifiedCredentials strings p u = Inr u'"
  using populate_binance [of strings p u] populate_okx [of strings p u]
    populate_other [of strings p u] by metis

text \<open>The plan of the unifier, field by field.\<close>

lemma ToUnified_plan:
  "ToUnified strings p =
     (case NewFromString (quoteAmountText p) of
        Inl err \<Rightarrow> Inl (InvalidQuoteAmount err)
      | Inr qa \<Rightarrow>
          (case (if thresholdText p \<noteq> [] then NewFromString (thresholdText p)
                 else Inr decimal_Zero) of
             Inl err \<Rightarrow> Inl (InvalidBalanceThreshold err)
           | Inr bt \<Rightarrow>
               Inr \<lparr>Unified.Exchange = ToLower strings (exchangeName p),
                    Unified.Symbol = ToUpper strings (strategySymbol p),
                    Unified.QuoteAmount = qa,
                    Unified.BalanceThreshold = bt,
                    Unified.DryRun = RuntimeFlags.DryRun (DCAPayload.Flags p),
                    Unified.OKX =
                      (if ToLower strings (exchangeName p) = ''okx'' then Some
                         \<lparr>Unified_OKX.APIKeyPath =
                            (if credentialKind p = ''ssm''
                             then stringOrEmpty (credentialBag p) ''apiKeyPath'' else []),
                          Unified_OKX.APISecretPath =
                            (if credentialKind p = ''ssm''
                             then stringOrEmpty (credentialBag p) ''apiSecretPath'' else []),
                          Unified_OKX.PassphrasePath =
                            (if credentialKind p = ''ssm''
                             then stringOrEmpty (credentialBag p) ''passphrasePath'' else [])\<rparr>
                       else None),
                    Unified.OKXInline =
                      (if ToLower strings (exchangeName p) = ''okx'' \<and> credentialKind p = ''inline''
                       then Some
                         \<lparr>Unified_OKXInline.APIKey = stringOrEmpty (credentialBag p) ''apiKey'',
                          Unified_OKXInline.APISecret = stringOrEmpty (credentialBag p) ''apiSecret'',
                          Unified_OKXInline.Passphrase =
                            stringOrEmpty (credentialBag p) ''passphrase''\<rparr>
                       else None),
                    Unified.Binance =
                      (if ToLower strings (exchangeName p) = ''binance'' then Some
                         \<lparr>Unified_Binance.APIKeyPath =
                            (if credentialKind p = ''ssm''
                             then stringOrEmpty (credentialBag p) ''apiKeyPath'' else []),
                          Unified_Binance.APISecretPath =
                            (if credentialKind p = ''ssm''
                             then stringOrEmpty (credentialBag p) ''apiSecretPath'' else [])\<rparr>
                       else None),
                    Unified.Telegram =
                      (case telegramBlock p of
                         None \<Rightarrow> None
                       | Some tg \<Rightarrow> Some
                           \<lparr>Unified_Telegram.BotTokenPath =
                              (if TelegramConfig.Type tg = ''ssm''
                               then stringOrEmpty (TelegramConfig.Config tg) ''botTokenPath''
                               else []),
                            Unified_Telegram.ChatID =
                              stringOrEmpty (TelegramConfig.Config tg) ''chatId'',
                            Unified_Telegram.Sink = []\<rparr>)\<rparr>))"
proof -
  consider (binance) "ToLower strings (exchangeName p) = ''binance''"
    | (okx) "ToLower strings (exchangeName p) = ''okx''"
    | (other) "ToLower strings (exchangeName p) \<noteq> ''binance''" "ToLower strings (exchangeName p) \<noteq> ''okx''"
    by blast
  then show ?thesis
  proof cases
    case binance
    then show ?thesis
      by (simp add: ToUnified_def populate_binance Let_def split: sum.splits option.splits)
  next
    case okx
    then show ?thesis
      by (simp add: ToUnified_def populate_okx Let_def split: sum.splits option.splits)
  next
    case other
    then show ?thesis
      by (simp add: ToUnified_def populate_other Let_def split: sum.splits option.splits)
  qed
qed

subsection \<open>The nested parse and the legacy adapter\<close>

lemma NewFromString_Nil: "NewFromString [] = Inl CantConvert"
  by (simp add: NewFromString_def ParseInt_def)

text \<open>When the nested parse accepts, and what it returns.\<close>

lemma ParseDCAPayload_Inr_iff:
  assumes "unmarshal raw = Inr p0"
  shows "ParseDCAPayload strings unmarshal raw = Inr p \<longleftrightarrow>
     ToLower strings (DCAPayload.Version p0) = ''v2'' \<and> exchangeName p0 \<noteq> [] \<and> strategySymbol p0 \<noteq> []
     \<and> (\<exists>qa. NewFromString (quoteAmountText p0) = Inr qa)
     \<and> (thresholdText p0 = [] \<or> (\<exists>bt. NewFromString (thresholdText p0) = Inr bt))
     \<and> p = (if OrderType (Strategy p0) = []
            then p0\<lparr>Strategy := (Strategy p0)\<lparr>OrderType := ''market''\<rparr>\<rparr> else p0)"
  using assms
  by (auto simp: ParseDCAPayload_def NewFromString_Nil split: sum.splits if_splits)

lemma ParseDCAPayload_Inr_decoded:
  assumes "ParseDCAPayload strings unmarshal raw = Inr p"
  obtains p0 where "unmarshal raw = Inr p0"
  using assms by (cases "unmarshal raw") (auto simp: ParseDCAPayload_def)

text \<open>The plan of the legacy adapter, field by field.\<close>

lemma ParseUnifiedV2_plan:
  assumes "unmarshal raw = Inr v2"
  shows "ParseUnifiedV2 strings unmarshal raw =
     (if ToLower strings (PayloadV2.Version v2) \<noteq> ''v2'' then Inl VersionMustBeV2
      else if ToLower strings (TrimSpace strings (PayloadV2.Exchange v2)) = []
        then Inl ExchangeRequired
      else if ToUpper strings (TrimSpace strings (PayloadV2_DCA.Symbol (DCA v2))) = [] \<and>
              (TargetAsset (DCA v2) = [] \<or> OrderCurrency (DCA v2) = [])
        then Inl DcaSymbolRequired
      else
        (case NewFromString (PayloadV2_DCA.QuoteAmount (DCA v2)) of
           Inl _ \<Rightarrow> Inl (DcaQuoteAmountInvalid (PayloadV2_DCA.QuoteAmount (DCA v2)))
         | Inr qa \<Rightarrow>
             if \<not> IsPositive qa
             then Inl (DcaQuoteAmountInvalid (PayloadV2_DCA.QuoteAmount (DCA v2)))
             else
               (case (if TrimSpace strings (PayloadV2_DCA.BalanceThreshold (DCA v2)) \<noteq> []
                      then NewFromString
                             (TrimSpace strings (PayloadV2_DCA.BalanceThreshold (DCA v2)))
                      else Inr decimal_Zero) of
                  Inl _ \<Rightarrow>
                    Inl (DcaBalanceThresholdInvalid
                           (TrimSpace strings (PayloadV2_DCA.BalanceThreshold (DCA v2))))
                | Inr bt \<Rightarrow>
                    Inr \<lparr>Unified.Exchange =
                           ToLower strings (TrimSpace strings (PayloadV2.Exchange v2)),
                         Unified.Symbol =
                           (if ToUpper strings (TrimSpace strings (PayloadV2_DCA.Symbol (DCA v2)))
                               \<noteq> []
                            then ToUpper strings (TrimSpace strings (PayloadV2_DCA.Symbol (DCA v2)))
                            else ToUpper strings (TargetAsset (DCA v2)) @ ''-'' @
                                 ToUpper strings (OrderCurrency (DCA v2))),
                         Unified.QuoteAmount = qa,
                         Unified.BalanceThreshold = bt,
                         Unified.DryRun = PayloadV2_Flags.DryRun (PayloadV2.Flags v2),
                         Unified.OKX =
                           (case PayloadV2_Credentials.OKX (PayloadV2.Credentials v2) of
                              None \<Rightarrow> None
                            | Some okx \<Rightarrow> Some
                                \<lparr>Unified_OKX.APIKeyPath = PayloadV2_OKX.APIKeyPath okx,
                                 Unified_OKX.APISecretPath = PayloadV2_OKX.APISecretPath okx,
                                 Unified_OKX.PassphrasePath = PayloadV2_OKX.PassphrasePath okx\<rparr>),
                         Unified.OKXInline =
                           (case PayloadV2_Credentials.OKX (PayloadV2.Credentials v2) of
                              None \<Rightarrow> None
                            | Some okx \<Rightarrow>
                                (case PayloadV2_OKX.Inline okx of
                                   None \<Rightarrow> None
                                 | Some inl \<Rightarrow> Some
                                     \<lparr>Unified_OKXInline.APIKey = PayloadV2_OKX_Inline.APIKey inl,
                                      Unified_OKXInline.APISecret =
                                        PayloadV2_OKX_Inline.APISecret inl,
                                      Unified_OKXInline.Passphrase =
                                        PayloadV2_OKX_Inline.Passphrase inl\<rparr>)),
                         Unified.Binance =
                           (case PayloadV2_Credentials.Binance (PayloadV2.Credentials v2) of
                              None \<Rightarrow> None
                            | Some bin \<Rightarrow> Some
                                \<lparr>Unified_Binance.APIKeyPath = PayloadV2_Binance.APIKeyPath bin,
                                 Unified_Binance.APISecretPath =
                                   PayloadV2_Binance.APISecretPath bin\<rparr>),
                         Unified.Telegram =
                           (case PayloadV2_Notifications.Telegram (PayloadV2.Notifications v2) of
                              None \<Rightarrow> None
                            | Some tg \<Rightarrow> Some
                                \<lparr>Unified_Telegram.BotTokenPath = PayloadV2_Telegram.BotTokenPath tg,
                                 Unified_Telegram.ChatID = PayloadV2_Telegram.ChatID tg,
                                 Unified_Telegram.Sink =
                                   ToLower strings
                                     (TrimSpace strings (PayloadV2_Telegram.Sink tg))\<rparr>)\<rparr>)))"
  using assms
  by (simp add: ParseUnifiedV2_def Let_def split: sum.splits option.splits)

subsection \<open>The functions on the example payloads\<close>

text \<open>The examples hold ASCII text only and are run with \<open>asciiStrings\<close>.\<close>

lemma decodesTo_Inr: "decodesTo v raw = Inr v"
  by (simp add: decodesTo_def)

lemma lower_v2: "ToLower asciiStrings ''v2'' = ''v2''" "ToLower asciiStrings ''V2'' = ''v2''"
  by code_simp+

lemma decimal_minus5: "NewFromString ''-5'' = Inr \<lparr>dec_value = - 5, dec_exp = 0\<rparr>"
  by code_simp

lemma decimal_0: "NewFromString ''0'' = Inr \<lparr>dec_value = 0, dec_exp = 0\<rparr>"
  by code_simp

lemma decimal_minus1_5: "NewFromString ''-1.5'' = Inr \<lparr>dec_value = - 15, dec_exp = - 1\<rparr>"
  by code_simp

lemma decimal_10: "NewFromString ''10'' = Inr \<lparr>dec_value = 10, dec_exp = 0\<rparr>"
  by code_simp

lemma decimal_10_00: "NewFromString ''10.00'' = Inr \<lparr>dec_value = 1000, dec_exp = - 2\<rparr>"
  by code_simp

lemma decimal_5000_00: "NewFromString ''5000.00'' = Inr \<lparr>dec_value = 500000, dec_exp = - 2\<rparr>"
  by code_simp

lemma decimal_20_50: "NewFromString ''20.50'' = Inr \<lparr>dec_value = 2050, dec_exp = - 2\<rparr>"
  by code_simp

lemma decimal_invalid: "NewFromString ''invalid'' = Inl CantConvert"
  by code_simp

lemma run_binance_ssm:
  "ToUnified asciiStrings binance_ssm_payload = Inr
     \<lparr>Unified.Exchange = ''binance'', Unified.Symbol = ''BTC-USDT'',
      Unified.QuoteAmount = \<lparr>dec_value = 1000, dec_exp = - 2\<rparr>,
      Unified.BalanceThreshold = \<lparr>dec_value = 500000, dec_exp = - 2\<rparr>,
      Unified.DryRun = True, Unified.OKX = None, Unified.OKXInline = None,
      Unified.Binance = Some \<lparr>Unified_Binance.APIKeyPath = ''/a'',
                              Unified_Binance.APISecretPath = ''/b''\<rparr>,
      Unified.Telegram = None\<rparr>"
  by code_simp

lemma run_okx_inline:
  "ToUnified asciiStrings okx_inline_payload = Inr
     \<lparr>Unified.Exchange = ''okx'', Unified.Symbol = ''ETH-USDT'',
      Unified.QuoteAmount = \<lparr>dec_value = 2050, dec_exp = - 2\<rparr>,
      Unified.BalanceThreshold = \<lparr>dec_value = 0, dec_exp = 1\<rparr>,
      Unified.DryRun = False,
      Unified.OKX = Some \<lparr>Unified_OKX.APIKeyPath = [], Unified_OKX.APISecretPath = [],
                          Unified_OKX.PassphrasePath = []\<rparr>,
      Unified.OKXInline = Some \<lparr>Unified_OKXInline.APIKey = ''k'',
                                Unified_OKXInline.APISecret = ''s'',
                                Unified_OKXInline.Passphrase = ''p''\<rparr>,
      Unified.Binance = None,
      Unified.Telegram = Some \<lparr>Unified_Telegram.BotTokenPath = [],
                               Unified_Telegram.ChatID = ''123456789'',
                               Unified_Telegram.Sink = []\<rparr>\<rparr>"
  by code_simp

lemma run_binance_mistyped:
  "ToUnified asciiStrings binance_mistyped_payload = Inr
     \<lparr>Unified.Exchange = ''binance'', Unified.Symbol = ''BTC-USDT'',
      Unified.QuoteAmount = \<lparr>dec_value = 10, dec_exp = 0\<rparr>,
      Unified.BalanceThreshold = \<lparr>dec_value = 0, dec_exp = 1\<rparr>,
      Unified.DryRun = False, Unified.OKX = None, Unified.OKXInline = None,
      Unified.Binance = Some \<lparr>Unified_Binance.APIKeyPath = [],
                              Unified_Binance.APISecretPath = []\<rparr>,
      Unified.Telegram = Some \<lparr>Unified_Telegram.BotTokenPath = [],
                               Unified_Telegram.ChatID = [],
                               Unified_Telegram.Sink = []\<rparr>\<rparr>"
  by code_simp

lemma run_invalid_quote: "ToUnified asciiStrings invalid_quote_payload = Inl (InvalidQuoteAmount CantConvert)"
  by code_simp

lemma run_legacy_both:
  "ParseUnifiedV2 asciiStrings (decodesTo (legacy_payload ''binance'' [] ''10'' both_credentials
       (Some telegram_block))) [] = Inr
     \<lparr>Unified.Exchange = ''binance'', Unified.Symbol = ''BTC-USDT'',
      Unified.QuoteAmount = \<lparr>dec_value = 10, dec_exp = 0\<rparr>,
      Unified.BalanceThreshold = \<lparr>dec_value = 0, dec_exp = 1\<rparr>,
      Unified.DryRun = False,
      Unified.OKX = Some \<lparr>Unified_OKX.APIKeyPath = ''/okx/key'',
                          Unified_OKX.APISecretPath = ''/okx/secret'',
                          Unified_OKX.PassphrasePath = ''/okx/pass''\<rparr>,
      Unified.OKXInline = Some \<lparr>Unified_OKXInline.APIKey = ''k'',
                                Unified_OKXInline.APISecret = ''s'',
                                Unified_OKXInline.Passphrase = ''p''\<rparr>,
      Unified.Binance = Some \<lparr>Unified_Binance.APIKeyPath = ''/bn/key'',
                              Unified_Binance.APISecretPath = ''/bn/secret''\<rparr>,
      Unified.Telegram = Some \<lparr>Unified_Telegram.BotTokenPath = ''/tg/token'',
                               Unified_Telegram.ChatID = ''42'',
                               Unified_Telegram.Sink = ''stdout''\<rparr>\<rparr>"
  by code_simp

lemma run_legacy_padded:
  "ParseUnifiedV2 asciiStrings (decodesTo (legacy_payload ''Binance'' '' eth-usdt '' ''10'' no_credentials None)) []
     = Inr
     \<lparr>Unified.Exchange = ''binance'', Unified.Symbol = ''ETH-USDT'',
      Unified.QuoteAmount = \<lparr>dec_value = 10, dec_exp = 0\<rparr>,
      Unified.BalanceThreshold = \<lparr>dec_value = 0, dec_exp = 1\<rparr>,
      Unified.DryRun = False, Unified.OKX = None, Unified.OKXInline = None,
      Unified.Binance = None, Unified.Telegram = None\<rparr>"
  by code_simp

lemma run_legacy_pair:
  "ParseUnifiedV2 asciiStrings (decodesTo (legacy_payload ''Binance'' [] ''10'' no_credentials None)) []
     = Inr
     \<lparr>Unified.Exchange = ''binance'', Unified.Symbol = ''BTC-USDT'',
      Unified.QuoteAmount = \<lparr>dec_value = 10, dec_exp = 0\<rparr>,
      Unified.BalanceThreshold = \<lparr>dec_value = 0, dec_exp = 1\<rparr>,
      Unified.DryRun = False, Unified.OKX = None, Unified.OKXInline = None,
      Unified.Binance = None, Unified.Telegram = None\<rparr>"
  by code_simp

lemma parse_negative_amount:
  "ParseDCAPayload asciiStrings (decodesTo negative_amount_payload) [] = Inr negative_amount_payload"
  unfolding ParseDCAPayload_Inr_iff [where unmarshal = "decodesTo negative_amount_payload" and raw = "[]",
      OF decodesTo_Inr]
  by (simp add: negative_amount_payload_def lower_v2 decimal_minus5 decimal_minus1_5)

lemma parse_binance_ssm:
  "ParseDCAPayload asciiStrings (decodesTo binance_ssm_payload) [] = Inr binance_ssm_payload"
  unfolding ParseDCAPayload_Inr_iff [where unmarshal = "decodesTo binance_ssm_payload" and raw = "[]",
      OF decodesTo_Inr]
  by (simp add: binance_ssm_payload_def lower_v2 decimal_10_00 decimal_5000_00)

lemma parse_blank_names:
  "ParseDCAPayload asciiStrings (decodesTo blank_names_payload) [] =
     Inr (blank_names_payload\<lparr>Strategy := (Strategy blank_names_payload)\<lparr>OrderType := ''market''\<rparr>\<rparr>)"
  unfolding ParseDCAPayload_Inr_iff [where unmarshal = "decodesTo blank_names_payload" and raw = "[]",
      OF decodesTo_Inr]
  by (simp add: blank_names_payload_def lower_v2 decimal_10)

subsection \<open>C1: which credential records a plan holds\<close>

text \<open>
  Claim C1, as amended. In every plan that \<open>ToUnified\<close> returns, the exchange identifier is the
  lower-cased exchange name of the instruction, \<open>strings.ToLower\<close> of it; the Binance record
  is present exactly when that identifier is \<open>binance\<close>, the OKX record exactly when it is
  \<open>okx\<close>, and the OKX inline record exactly when it is \<open>okx\<close> and the credential kind is
  \<open>inline\<close>. So at most one of the Binance and OKX records is present, it is the one of the
  plan's exchange, there is none for any other exchange, and a record that is not present is
  \<open>nil\<close> (\<open>None\<close>).
  In every plan that \<open>ParseUnifiedV2\<close> returns, the OKX, Binance and OKX inline records are
  present exactly when the payload holds the corresponding credential block, whatever the
  exchange identifier is.
\<close>

theorem credential_records_by_exchange:
  "(\<forall>u. ToUnified strings p = Inr u \<longrightarrow>
      Unified.Exchange u = ToLower strings (exchangeName p) \<and>
      (Unified.Binance u \<noteq> None \<longleftrightarrow> Unified.Exchange u = ''binance'') \<and>
      (Unified.OKX u \<noteq> None \<longleftrightarrow> Unified.Exchange u = ''okx'') \<and>
      (Unified.OKXInline u \<noteq> None \<longleftrightarrow>
         Unified.Exchange u = ''okx'' \<and> credentialKind p = ''inline''))
   \<and> (\<forall>v2 u. unmarshal raw = Inr v2 \<and> ParseUnifiedV2 strings unmarshal raw = Inr u \<longrightarrow>
      (Unified.OKX u \<noteq> None \<longleftrightarrow> PayloadV2_Credentials.OKX (PayloadV2.Credentials v2) \<noteq> None) \<and>
      (Unified.Binance u \<noteq> None \<longleftrightarrow>
         PayloadV2_Credentials.Binance (PayloadV2.Credentials v2) \<noteq> None) \<and>
      (Unified.OKXInline u \<noteq> None \<longleftrightarrow>
         (\<exists>okx. PayloadV2_Credentials.OKX (PayloadV2.Credentials v2) = Some okx
            \<and> PayloadV2_OKX.Inline okx \<noteq> None)))"
proof (intro conjI allI impI)
  fix u assume "ToUnified strings p = Inr u"
  then have u: "Unified.Exchange u = ToLower strings (exchangeName p)"
    and "Unified.Binance u \<noteq> None \<longleftrightarrow> ToLower strings (exchangeName p) = ''binance''"
    and "Unified.OKX u \<noteq> None \<longleftrightarrow> ToLower strings (exchangeName p) = ''okx''"
    and "Unified.OKXInline u \<noteq> None \<longleftrightarrow>
         ToLower strings (exchangeName p) = ''okx'' \<and> credentialKind p = ''inline''"
    unfolding ToUnified_plan by (auto split: sum.splits if_splits)
  then show "Unified.Exchange u = ToLower strings (exchangeName p)"
    and "Unified.Binance u \<noteq> None \<longleftrightarrow> Unified.Exchange u = ''binance''"
    and "Unified.OKX u \<noteq> None \<longleftrightarrow> Unified.Exchange u = ''okx''"
    and "Unified.OKXInline u \<noteq> None \<longleftrightarrow>
         Unified.Exchange u = ''okx'' \<and> credentialKind p = ''inline''"
    by simp_all
next
  fix v2 u assume a: "unmarshal raw = Inr v2 \<and> ParseUnifiedV2 strings unmarshal raw = Inr u"
  then have r: "ParseUnifiedV2 strings unmarshal raw = Inr u" and d: "unmarshal raw = Inr v2"
    by simp_all
  from r show "Unified.OKX u \<noteq> None \<longleftrightarrow> PayloadV2_Credentials.OKX (PayloadV2.Credentials v2) \<noteq> None"
    unfolding ParseUnifiedV2_plan [where unmarshal = unmarshal and raw = raw, OF d] by (auto split: sum.splits if_splits option.splits)
  from r show "Unified.Binance u \<noteq> None \<longleftrightarrow>
         PayloadV2_Credentials.Binance (PayloadV2.Credentials v2) \<noteq> None"
    unfolding ParseUnifiedV2_plan [where unmarshal = unmarshal and raw = raw, OF d] by (auto split: sum.splits if_splits option.splits)
  from r show "Unified.OKXInline u \<noteq> None \<longleftrightarrow>
         (\<exists>okx. PayloadV2_Credentials.OKX (PayloadV2.Credentials v2) = Some okx
            \<and> PayloadV2_OKX.Inline okx \<noteq> None)"
    unfolding ParseUnifiedV2_plan [where unmarshal = unmarshal and raw = raw, OF d] by (auto split: sum.splits if_splits option.splits)
qed

text \<open>
  C1, as amended, on examples, run with the string functions on ASCII text: the Binance
  payload of the tests gives a plan with the Binance record alone; a legacy payload for
  \<open>binance\<close> that holds both credential blocks gives a plan with the OKX, the OKX inline and
  the Binance record.
\<close>

theorem credential_records_by_exchange_witness:
  "(\<exists>u. ToUnified asciiStrings binance_ssm_payload = Inr u \<and> Unified.Exchange u = ''binance'' \<and>
        Unified.Binance u \<noteq> None \<and> Unified.OKX u = None \<and> Unified.OKXInline u = None)
   \<and> (\<exists>u. ParseUnifiedV2 asciiStrings (decodesTo (legacy_payload ''binance'' [] ''10'' both_credentials
              (Some telegram_block))) [] = Inr u \<and>
        Unified.OKX u \<noteq> None \<and> Unified.Binance u \<noteq> None \<and> Unified.OKXInline u \<noteq> None)"
proof -
  let ?v2 = "legacy_payload ''binance'' [] ''10'' both_credentials (Some telegram_block)"
  have blocks: "PayloadV2_Credentials.OKX (PayloadV2.Credentials ?v2) = Some okx_block"
    "PayloadV2_Credentials.Binance (PayloadV2.Credentials ?v2) \<noteq> None"
    "PayloadV2_OKX.Inline okx_block \<noteq> None"
    by (simp_all add: legacy_payload_def both_credentials_def okx_block_def)
  note unifier = credential_records_by_exchange [where strings = asciiStrings
      and p = binance_ssm_payload and unmarshal = "decodesTo ?v2" and raw = "[]", THEN conjunct1,
      rule_format, OF run_binance_ssm]
  note legacy = credential_records_by_exchange [where strings = asciiStrings
      and p = binance_ssm_payload and unmarshal = "decodesTo ?v2" and raw = "[]", THEN conjunct2,
      rule_format, OF conjI [OF decodesTo_Inr run_legacy_both]]
  from unifier have "ToLower asciiStrings (exchangeName binance_ssm_payload) = ''binance''"
    by simp
  with unifier have first: "\<exists>u. ToUnified asciiStrings binance_ssm_payload = Inr u \<and>
        Unified.Exchange u = ''binance'' \<and>
        Unified.Binance u \<noteq> None \<and> Unified.OKX u = None \<and> Unified.OKXInline u = None"
    unfolding run_binance_ssm by simp
  from legacy blocks have second: "\<exists>u. ParseUnifiedV2 asciiStrings (decodesTo ?v2) [] = Inr u \<and>
        Unified.OKX u \<noteq> None \<and> Unified.Binance u \<noteq> None \<and> Unified.OKXInline u \<noteq> None"
    unfolding run_legacy_both by simp
  from first second show ?thesis ..
qed

text \<open>
  Claim C1 as stated, exactly one exchange record in every plan and that of the plan's
  exchange, fails on both paths. The unifier returns a plan with no record at all for the
  exchange \<open>kraken\<close>, and the legacy adapter returns, for the exchange \<open>binance\<close> and a
  payload that holds an OKX block only, a plan with the two OKX records and no Binance
  record.
\<close>

theorem credential_records_not_exactly_one:
  "ToUnified asciiStrings kraken_payload = Inr
     \<lparr>Unified.Exchange = ''kraken'', Unified.Symbol = ''BTC-USD'',
      Unified.QuoteAmount = \<lparr>dec_value = 10, dec_exp = 0\<rparr>,
      Unified.BalanceThreshold = \<lparr>dec_value = 0, dec_exp = 1\<rparr>,
      Unified.DryRun = False, Unified.OKX = None, Unified.OKXInline = None,
      Unified.Binance = None, Unified.Telegram = None\<rparr>
   \<and> ParseUnifiedV2 asciiStrings (decodesTo (legacy_payload ''binance'' [] ''10''
         \<lparr>PayloadV2_Credentials.OKX = Some okx_block, PayloadV2_Credentials.Binance = None\<rparr>
         None)) [] = Inr
     \<lparr>Unified.Exchange = ''binance'', Unified.Symbol = ''BTC-USDT'',
      Unified.QuoteAmount = \<lparr>dec_value = 10, dec_exp = 0\<rparr>,
      Unified.BalanceThreshold = \<lparr>dec_value = 0, dec_exp = 1\<rparr>,
      Unified.DryRun = False,
      Unified.OKX = Some \<lparr>Unified_OKX.APIKeyPath = ''/okx/key'',
                          Unified_OKX.APISecretPath = ''/okx/secret'',
                          Unified_OKX.PassphrasePath = ''/okx/pass''\<rparr>,
      Unified.OKXInline = Some \<lparr>Unified_OKXInline.APIKey = ''k'',
                                Unified_OKXInline.APISecret = ''s'',
                                Unified_OKXInline.Passphrase = ''p''\<rparr>,
      Unified.Binance = None, Unified.Telegram = None\<rparr>"
  by code_simp

subsection \<open>C2: positivity of the quote amount on the two paths\<close>

text \<open>
  Claim C2. Legacy adapter: when the quote amount of a decoded payload does not parse as a
  decimal, or parses to a decimal that is not strictly positive, \<open>ParseUnifiedV2\<close> fails; and
  when the checks that come before the amount pass (the lower-cased version is \<open>v2\<close>, the
  trimmed and lower-cased exchange is not empty, the trimmed and upper-cased symbol is not
  empty or target asset and order currency are both given), the error is the one of the
  quote amount, carrying the amount's text as it stands in the payload.
  Nested payload: \<open>ParseDCAPayload\<close> accepts every payload with version \<open>v2\<close>, an exchange
  name, a symbol, a quote amount that parses as a decimal of any sign, and a balance
  threshold that is empty or parses.
\<close>

theorem quote_amount_positivity_asymmetry:
  "(\<forall>v2. unmarshal raw = Inr v2 \<and>
       (\<forall>qa. NewFromString (PayloadV2_DCA.QuoteAmount (DCA v2)) = Inr qa \<longrightarrow> \<not> IsPositive qa) \<longrightarrow>
       (\<exists>e. ParseUnifiedV2 strings unmarshal raw = Inl e) \<and>
       (ToLower strings (PayloadV2.Version v2) = ''v2'' \<and>
        ToLower strings (TrimSpace strings (PayloadV2.Exchange v2)) \<noteq> [] \<and>
        (ToUpper strings (TrimSpace strings (PayloadV2_DCA.Symbol (DCA v2))) \<noteq> [] \<or>
         TargetAsset (DCA v2) \<noteq> [] \<and> OrderCurrency (DCA v2) \<noteq> []) \<longrightarrow>
        ParseUnifiedV2 strings unmarshal raw =
          Inl (DcaQuoteAmountInvalid (PayloadV2_DCA.QuoteAmount (DCA v2)))))
   \<and> (\<forall>p0. unmarshal' raw' = Inr p0 \<and> ToLower strings (DCAPayload.Version p0) = ''v2'' \<and>
         exchangeName p0 \<noteq> [] \<and> strategySymbol p0 \<noteq> [] \<and>
         (\<exists>qa. NewFromString (quoteAmountText p0) = Inr qa) \<and>
         (thresholdText p0 = [] \<or> (\<exists>bt. NewFromString (thresholdText p0) = Inr bt)) \<longrightarrow>
         (\<exists>p. ParseDCAPayload strings unmarshal' raw' = Inr p))"
proof (intro conjI allI impI)
  fix v2
  assume a: "unmarshal raw = Inr v2 \<and>
       (\<forall>qa. NewFromString (PayloadV2_DCA.QuoteAmount (DCA v2)) = Inr qa \<longrightarrow> \<not> IsPositive qa)"
  then have d: "unmarshal raw = Inr v2" by simp
  from a show "\<exists>e. ParseUnifiedV2 strings unmarshal raw = Inl e"
    unfolding ParseUnifiedV2_plan [where unmarshal = unmarshal and raw = raw, OF d]
    by (auto split: sum.splits)
  assume "ToLower strings (PayloadV2.Version v2) = ''v2'' \<and>
        ToLower strings (TrimSpace strings (PayloadV2.Exchange v2)) \<noteq> [] \<and>
        (ToUpper strings (TrimSpace strings (PayloadV2_DCA.Symbol (DCA v2))) \<noteq> [] \<or>
         TargetAsset (DCA v2) \<noteq> [] \<and> OrderCurrency (DCA v2) \<noteq> [])"
  with a show "ParseUnifiedV2 strings unmarshal raw =
          Inl (DcaQuoteAmountInvalid (PayloadV2_DCA.QuoteAmount (DCA v2)))"
    unfolding ParseUnifiedV2_plan [where unmarshal = unmarshal and raw = raw, OF d]
    by (auto split: sum.splits)
next
  fix p0
  assume a: "unmarshal' raw' = Inr p0 \<and> ToLower strings (DCAPayload.Version p0) = ''v2'' \<and>
         exchangeName p0 \<noteq> [] \<and> strategySymbol p0 \<noteq> [] \<and>
         (\<exists>qa. NewFromString (quoteAmountText p0) = Inr qa) \<and>
         (thresholdText p0 = [] \<or> (\<exists>bt. NewFromString (thresholdText p0) = Inr bt))"
  then have d: "unmarshal' raw' = Inr p0" by simp
  from a show "\<exists>p. ParseDCAPayload strings unmarshal' raw' = Inr p"
    unfolding ParseDCAPayload_Inr_iff [where unmarshal = unmarshal' and raw = raw', OF d]
    by blast
qed

text \<open>
  C2 on the amounts \<open>-5\<close> and \<open>0\<close>: the legacy adapter rejects both and quotes them, the
  nested parse accepts a payload whose quote amount is \<open>-5\<close>.
\<close>

theorem quote_amount_positivity_asymmetry_witness:
  "ParseUnifiedV2 asciiStrings
       (decodesTo (legacy_payload ''Binance'' [] ''-5'' no_credentials None)) []
     = Inl (DcaQuoteAmountInvalid ''-5'')
   \<and> ParseUnifiedV2 asciiStrings
       (decodesTo (legacy_payload ''Binance'' [] ''0'' no_credentials None)) []
     = Inl (DcaQuoteAmountInvalid ''0'')
   \<and> quoteAmountText negative_amount_payload = ''-5''
   \<and> (\<exists>p. ParseDCAPayload asciiStrings (decodesTo negative_amount_payload) [] = Inr p)"
proof -
  let ?neg = "legacy_payload ''Binance'' [] ''-5'' no_credentials None"
  let ?zero = "legacy_payload ''Binance'' [] ''0'' no_credentials None"
  have neg: "\<forall>qa. NewFromString (PayloadV2_DCA.QuoteAmount (DCA ?neg)) = Inr qa \<longrightarrow> \<not> IsPositive qa"
    by (simp add: legacy_payload_def decimal_minus5) (auto simp: IsPositive_def)
  have zero: "\<forall>qa. NewFromString (PayloadV2_DCA.QuoteAmount (DCA ?zero)) = Inr qa \<longrightarrow> \<not> IsPositive qa"
    by (simp add: legacy_payload_def decimal_0) (auto simp: IsPositive_def)
  have exchange: "ToLower asciiStrings (TrimSpace asciiStrings ''Binance'') \<noteq> []"
    by code_simp
  have early: "ToLower asciiStrings (PayloadV2.Version ?neg) = ''v2'' \<and>
        ToLower asciiStrings (TrimSpace asciiStrings (PayloadV2.Exchange ?neg)) \<noteq> [] \<and>
        (ToUpper asciiStrings (TrimSpace asciiStrings (PayloadV2_DCA.Symbol (DCA ?neg))) \<noteq> [] \<or>
         TargetAsset (DCA ?neg) \<noteq> [] \<and> OrderCurrency (DCA ?neg) \<noteq> [])"
    "ToLower asciiStrings (PayloadV2.Version ?zero) = ''v2'' \<and>
        ToLower asciiStrings (TrimSpace asciiStrings (PayloadV2.Exchange ?zero)) \<noteq> [] \<and>
        (ToUpper asciiStrings (TrimSpace asciiStrings (PayloadV2_DCA.Symbol (DCA ?zero))) \<noteq> [] \<or>
         TargetAsset (DCA ?zero) \<noteq> [] \<and> OrderCurrency (DCA ?zero) \<noteq> [])"
    by (simp_all add: legacy_payload_def lower_v2 exchange)
  have nested: "decodesTo negative_amount_payload [] = Inr negative_amount_payload \<and>
         ToLower asciiStrings (DCAPayload.Version negative_amount_payload) = ''v2'' \<and>
         exchangeName negative_amount_payload \<noteq> [] \<and> strategySymbol negative_amount_payload \<noteq> [] \<and>
         (\<exists>qa. NewFromString (quoteAmountText negative_amount_payload) = Inr qa) \<and>
         (thresholdText negative_amount_payload = [] \<or>
          (\<exists>bt. NewFromString (thresholdText negative_amount_payload) = Inr bt))"
    by (simp add: decodesTo_Inr negative_amount_payload_def lower_v2 decimal_minus5 decimal_minus1_5)
  note a = quote_amount_positivity_asymmetry [where strings = asciiStrings
      and unmarshal = "decodesTo ?neg" and raw = "[]"
      and unmarshal' = "decodesTo negative_amount_payload" and raw' = "[]",
      THEN conjunct1, rule_format, OF conjI [OF decodesTo_Inr neg], THEN conjunct2,
      rule_format, OF early(1)]
  note b = quote_amount_positivity_asymmetry [where strings = asciiStrings
      and unmarshal = "decodesTo ?zero" and raw = "[]"
      and unmarshal' = "decodesTo negative_amount_payload" and raw' = "[]",
      THEN conjunct1, rule_format, OF conjI [OF decodesTo_Inr zero], THEN conjunct2,
      rule_format, OF early(2)]
  note c = quote_amount_positivity_asymmetry [where strings = asciiStrings
      and unmarshal = "decodesTo ?neg" and raw = "[]"
      and unmarshal' = "decodesTo negative_amount_payload" and raw' = "[]",
      THEN conjunct2, rule_format, OF nested]
  have q: "quoteAmountText negative_amount_payload = ''-5''"
    by (simp add: negative_amount_payload_def)
  from a b c q show ?thesis
    by (simp add: legacy_payload_def)
qed

subsection \<open>C3: what the nested parse checks on the amounts\<close>

text \<open>
  Claim C3, as amended. In every payload that \<open>ParseDCAPayload\<close> accepts, the quote amount
  parses as a decimal number and so does the balance threshold when it is not empty; the
  sign of neither is checked.
\<close>

theorem parse_accepts_only_valid_decimals:
  assumes "ParseDCAPayload strings unmarshal raw = Inr p"
  shows "(\<exists>qa. NewFromString (quoteAmountText p) = Inr qa) \<and>
         (thresholdText p \<noteq> [] \<longrightarrow> (\<exists>bt. NewFromString (thresholdText p) = Inr bt))"
proof -
  from assms obtain p0 where d: "unmarshal raw = Inr p0"
    by (rule ParseDCAPayload_Inr_decoded)
  from assms show ?thesis
    unfolding ParseDCAPayload_Inr_iff [where unmarshal = unmarshal and raw = raw, OF d] by (auto split: if_splits)
qed

text \<open>
  C3, as amended, on the Binance payload of the tests, which is accepted and has a balance
  threshold.
\<close>

theorem parse_accepts_only_valid_decimals_witness:
  "ParseDCAPayload asciiStrings (decodesTo binance_ssm_payload) [] = Inr binance_ssm_payload
   \<and> (\<exists>qa. NewFromString (quoteAmountText binance_ssm_payload) = Inr qa)
   \<and> thresholdText binance_ssm_payload \<noteq> []
   \<and> (\<exists>bt. NewFromString (thresholdText binance_ssm_payload) = Inr bt)"
proof -
  note inst = parse_accepts_only_valid_decimals [of asciiStrings
      "decodesTo binance_ssm_payload" "[]" binance_ssm_payload,
      OF parse_binance_ssm]
  have present: "thresholdText binance_ssm_payload \<noteq> []"
    by (simp add: binance_ssm_payload_def)
  with inst parse_binance_ssm show ?thesis by simp
qed

text \<open>
  Claim C3 as stated, that the nested parse rejects a negative quote amount or balance
  threshold, fails: the payload with quote amount \<open>-5\<close> and balance threshold \<open>-1.5\<close> is
  accepted and returned as it is, and both texts parse to negative decimals.
\<close>

theorem parse_accepts_negative_amounts:
  "ParseDCAPayload asciiStrings (decodesTo negative_amount_payload) [] = Inr negative_amount_payload
   \<and> quoteAmountText negative_amount_payload = ''-5''
   \<and> NewFromString ''-5'' = Inr \<lparr>dec_value = - 5, dec_exp = 0\<rparr>
   \<and> thresholdText negative_amount_payload = ''-1.5''
   \<and> NewFromString ''-1.5'' = Inr \<lparr>dec_value = - 15, dec_exp = - 1\<rparr>"
  by (simp add: parse_negative_amount decimal_minus5 decimal_minus1_5)
     (simp add: negative_amount_payload_def)

subsection \<open>C4: where the unifier can fail\<close>

text \<open>
  Claim C4. When \<open>ToUnified\<close> fails, the error is that of the quote amount, whose text then
  does not parse, or that of the balance threshold, whose text then is not empty and does not
  parse. When the quote amount parses and the balance threshold is empty or parses,
  \<open>ToUnified\<close> succeeds, whatever the two bags hold. And in the plan, a field whose key is
  missing from the bag, or holds a value that is not a string, is the empty string: the two
  paths of the Binance record, the three of the OKX record, the three fields of the OKX
  inline record, and the chat id and the bot token path of the Telegram record.
\<close>

theorem ToUnified_fails_only_on_decimals:
  "(\<forall>e. ToUnified strings p = Inl e \<longrightarrow>
      (\<exists>err. NewFromString (quoteAmountText p) = Inl err \<and> e = InvalidQuoteAmount err) \<or>
      (\<exists>err. thresholdText p \<noteq> [] \<and> NewFromString (thresholdText p) = Inl err
         \<and> e = InvalidBalanceThreshold err))
   \<and> ((\<exists>qa. NewFromString (quoteAmountText p) = Inr qa) \<and>
        (thresholdText p = [] \<or> (\<exists>bt. NewFromString (thresholdText p) = Inr bt)) \<longrightarrow>
        (\<exists>u. ToUnified strings p = Inr u))
   \<and> (\<forall>u. ToUnified strings p = Inr u \<longrightarrow>
        (\<forall>b. Unified.Binance u = Some b \<longrightarrow>
           (stringAt (credentialBag p) ''apiKeyPath'' = None \<longrightarrow> Unified_Binance.APIKeyPath b = []) \<and>
           (stringAt (credentialBag p) ''apiSecretPath'' = None \<longrightarrow> Unified_Binance.APISecretPath b = [])) \<and>
        (\<forall>ok. Unified.OKX u = Some ok \<longrightarrow>
           (stringAt (credentialBag p) ''apiKeyPath'' = None \<longrightarrow> Unified_OKX.APIKeyPath ok = []) \<and>
           (stringAt (credentialBag p) ''apiSecretPath'' = None \<longrightarrow> Unified_OKX.APISecretPath ok = []) \<and>
           (stringAt (credentialBag p) ''passphrasePath'' = None \<longrightarrow> Unified_OKX.PassphrasePath ok = [])) \<and>
        (\<forall>i. Unified.OKXInline u = Some i \<longrightarrow>
           (stringAt (credentialBag p) ''apiKey'' = None \<longrightarrow> Unified_OKXInline.APIKey i = []) \<and>
           (stringAt (credentialBag p) ''apiSecret'' = None \<longrightarrow> Unified_OKXInline.APISecret i = []) \<and>
           (stringAt (credentialBag p) ''passphrase'' = None \<longrightarrow> Unified_OKXInline.Passphrase i = [])) \<and>
        (\<forall>tg t. telegramBlock p = Some tg \<and> Unified.Telegram u = Some t \<longrightarrow>
           (stringAt (TelegramConfig.Config tg) ''chatId'' = None \<longrightarrow> Unified_Telegram.ChatID t = []) \<and>
           (stringAt (TelegramConfig.Config tg) ''botTokenPath'' = None \<longrightarrow>
              Unified_Telegram.BotTokenPath t = [])))"
proof (intro conjI allI impI)
  fix e assume "ToUnified strings p = Inl e"
  then show "(\<exists>err. NewFromString (quoteAmountText p) = Inl err \<and> e = InvalidQuoteAmount err) \<or>
      (\<exists>err. thresholdText p \<noteq> [] \<and> NewFromString (thresholdText p) = Inl err
         \<and> e = InvalidBalanceThreshold err)"
    unfolding ToUnified_plan by (auto split: sum.splits if_splits)
next
  assume "(\<exists>qa. NewFromString (quoteAmountText p) = Inr qa) \<and>
        (thresholdText p = [] \<or> (\<exists>bt. NewFromString (thresholdText p) = Inr bt))"
  then show "\<exists>u. ToUnified strings p = Inr u"
    unfolding ToUnified_plan by (auto split: sum.splits if_splits)
next
  fix u b assume "ToUnified strings p = Inr u" "Unified.Binance u = Some b" "stringAt (credentialBag p) ''apiKeyPath'' = None"
  then show "Unified_Binance.APIKeyPath b = []"
    unfolding ToUnified_plan by (auto split: sum.splits if_splits)
next
  fix u b assume "ToUnified strings p = Inr u" "Unified.Binance u = Some b" "stringAt (credentialBag p) ''apiSecretPath'' = None"
  then show "Unified_Binance.APISecretPath b = []"
    unfolding ToUnified_plan by (auto split: sum.splits if_splits)
next
  fix u ok assume "ToUnified strings p = Inr u" "Unified.OKX u = Some ok" "stringAt (credentialBag p) ''apiKeyPath'' = None"
  then show "Unified_OKX.APIKeyPath ok = []"
    unfolding ToUnified_plan by (auto split: sum.splits if_splits)
next
  fix u ok assume "ToUnified strings p = Inr u" "Unified.OKX u = Some ok" "stringAt (credentialBag p) ''apiSecretPath'' = None"
  then show "Unified_OKX.APISecretPath ok = []"
    unfolding ToUnified_plan by (auto split: sum.splits if_splits)
next
  fix u ok assume "ToUnified strings p = Inr u" "Unified.OKX u = Some ok" "stringAt (credentialBag p) ''passphrasePath'' = None"
  then show "Unified_OKX.PassphrasePath ok = []"
    unfolding ToUnified_plan by (auto split: sum.splits if_splits)
next
  fix u i assume "ToUnified strings p = Inr u" "Unified.OKXInline u = Some i" "stringAt (credentialBag p) ''apiKey'' = None"
  then show "Unified_OKXInline.APIKey i = []"
    unfolding ToUnified_plan by (auto split: sum.splits if_splits)
next
  fix u i assume "ToUnified strings p = Inr u" "Unified.OKXInline u = Some i" "stringAt (credentialBag p) ''apiSecret'' = None"
  then show "Unified_OKXInline.APISecret i = []"
    unfolding ToUnified_plan by (auto split: sum.splits if_splits)
next
  fix u i assume "ToUnified strings p = Inr u" "Unified.OKXInline u = Some i" "stringAt (credentialBag p) ''passphrase'' = None"
  then show "Unified_OKXInline.Passphrase i = []"
    unfolding ToUnified_plan by (auto split: sum.splits if_splits)
next
  fix u tg t assume "ToUnified strings p = Inr u" "telegramBlock p = Some tg \<and> Unified.Telegram u = Some t"
    "stringAt (TelegramConfig.Config tg) ''chatId'' = None"
  then show "Unified_Telegram.ChatID t = []"
    unfolding ToUnified_plan by (auto split: sum.splits if_splits)
next
  fix u tg t assume "ToUnified strings p = Inr u" "telegramBlock p = Some tg \<and> Unified.Telegram u = Some t"
    "stringAt (TelegramConfig.Config tg) ''botTokenPath'' = None"
  then show "Unified_Telegram.BotTokenPath t = []"
    unfolding ToUnified_plan by (auto split: sum.splits if_splits)
qed

text \<open>
  C4 on two payloads of the tests' kind: a Binance payload whose bag holds a number under
  \<open>apiKeyPath\<close> and nothing under \<open>apiSecretPath\<close> is unified, both paths empty; the payload
  with quote amount \<open>invalid\<close> fails with the error of the quote amount.
\<close>

theorem ToUnified_fails_only_on_decimals_witness:
  "stringAt (credentialBag binance_mistyped_payload) ''apiKeyPath'' = None
   \<and> stringAt (credentialBag binance_mistyped_payload) ''apiSecretPath'' = None
   \<and> (\<exists>u b. ToUnified asciiStrings binance_mistyped_payload = Inr u \<and> Unified.Binance u = Some b \<and>
         Unified_Binance.APIKeyPath b = [] \<and> Unified_Binance.APISecretPath b = [])
   \<and> (\<exists>err. ToUnified asciiStrings invalid_quote_payload = Inl (InvalidQuoteAmount err) \<and>
         NewFromString (quoteAmountText invalid_quote_payload) = Inl err)"
proof -
  let ?b = "\<lparr>Unified_Binance.APIKeyPath = [], Unified_Binance.APISecretPath = []\<rparr>"
  have key: "stringAt (credentialBag binance_mistyped_payload) ''apiKeyPath'' = None"
    and secret: "stringAt (credentialBag binance_mistyped_payload) ''apiSecretPath'' = None"
    by code_simp+
  have valid: "(\<exists>qa. NewFromString (quoteAmountText binance_mistyped_payload) = Inr qa) \<and>
      (thresholdText binance_mistyped_payload = [] \<or>
       (\<exists>bt. NewFromString (thresholdText binance_mistyped_payload) = Inr bt))"
    by (simp add: binance_mistyped_payload_def decimal_10)
  note succeeds = ToUnified_fails_only_on_decimals [of asciiStrings binance_mistyped_payload,
      THEN conjunct2, THEN conjunct1, rule_format, OF valid]
  then obtain u where u: "ToUnified asciiStrings binance_mistyped_payload = Inr u" ..
  note zero = ToUnified_fails_only_on_decimals [of asciiStrings binance_mistyped_payload,
      THEN conjunct2, THEN conjunct2, rule_format, OF u, THEN conjunct1, rule_format]
  from u have "Unified.Binance u = Some ?b"
    unfolding run_binance_mistyped by auto
  with zero key secret u
  have first: "\<exists>u b. ToUnified asciiStrings binance_mistyped_payload = Inr u \<and> Unified.Binance u = Some b \<and>
         Unified_Binance.APIKeyPath b = [] \<and> Unified_Binance.APISecretPath b = []"
    by blast
  note fails = ToUnified_fails_only_on_decimals [of asciiStrings invalid_quote_payload,
      THEN conjunct1, rule_format, OF run_invalid_quote]
  have "thresholdText invalid_quote_payload = []"
    by (simp add: invalid_quote_payload_def)
  with fails have second: "\<exists>err. ToUnified asciiStrings invalid_quote_payload = Inl (InvalidQuoteAmount err) \<and>
         NewFromString (quoteAmountText invalid_quote_payload) = Inl err"
    by (auto simp: run_invalid_quote)
  from key secret first second show ?thesis by blast
qed

subsection \<open>C5: parse, then unify, a Binance payload with SSM paths\<close>

text \<open>
  Claim C5. For a payload that decodes to exchange \<open>binance\<close>, credential kind \<open>ssm\<close> and a
  bag that holds the strings \<open>/a\<close> under \<open>apiKeyPath\<close> and \<open>/b\<close> under \<open>apiSecretPath\<close>: when
  \<open>ParseDCAPayload\<close> accepts it, \<open>ToUnified\<close> of the result succeeds, with a Binance record of
  these two paths and no OKX record. Of \<open>strings.ToLower\<close> this uses that it leaves the
  lower-case word \<open>binance\<close> as it is.
\<close>

theorem parse_then_ToUnified_binance_ssm:
  assumes "unmarshal raw = Inr p0"
    and "exchangeName p0 = ''binance''" and "credentialKind p0 = ''ssm''"
    and "credentialBag p0 ''apiKeyPath'' = Some (JString ''/a'')"
    and "credentialBag p0 ''apiSecretPath'' = Some (JString ''/b'')"
    and "ParseDCAPayload strings unmarshal raw = Inr p"
    and "ToLower strings ''binance'' = ''binance''"
  shows "\<exists>u. ToUnified strings p = Inr u
           \<and> Unified.Binance u = Some \<lparr>Unified_Binance.APIKeyPath = ''/a'',
                                      Unified_Binance.APISecretPath = ''/b''\<rparr>
           \<and> Unified.OKX u = None"
proof -
  note lower = assms(7)
  from assms(6) have ok: "(\<exists>qa. NewFromString (quoteAmountText p0) = Inr qa)"
    "thresholdText p0 = [] \<or> (\<exists>bt. NewFromString (thresholdText p0) = Inr bt)"
    and p: "p = (if OrderType (Strategy p0) = []
            then p0\<lparr>Strategy := (Strategy p0)\<lparr>OrderType := ''market''\<rparr>\<rparr> else p0)"
    unfolding ParseDCAPayload_Inr_iff [where unmarshal = unmarshal and raw = raw, OF assms(1)]
    by simp_all
  from p have same: "exchangeName p = exchangeName p0" "credentialKind p = credentialKind p0"
    "credentialBag p = credentialBag p0" "quoteAmountText p = quoteAmountText p0"
    "thresholdText p = thresholdText p0"
    by (simp_all split: if_splits)
  from ok assms(2-5) show ?thesis
    unfolding ToUnified_plan same
    by (auto simp: lower stringAt_def split: sum.splits)
qed

text \<open>
  C5 on the Binance payload of the tests.
\<close>

theorem parse_then_ToUnified_binance_ssm_witness:
  "exchangeName binance_ssm_payload = ''binance'' \<and> credentialKind binance_ssm_payload = ''ssm''
   \<and> credentialBag binance_ssm_payload ''apiKeyPath'' = Some (JString ''/a'')
   \<and> credentialBag binance_ssm_payload ''apiSecretPath'' = Some (JString ''/b'')
   \<and> ParseDCAPayload asciiStrings (decodesTo binance_ssm_payload) [] = Inr binance_ssm_payload
   \<and> ToLower asciiStrings ''binance'' = ''binance''
   \<and> (\<exists>u. ToUnified asciiStrings binance_ssm_payload = Inr u
         \<and> Unified.Binance u = Some \<lparr>Unified_Binance.APIKeyPath = ''/a'',
                                    Unified_Binance.APISecretPath = ''/b''\<rparr>
         \<and> Unified.OKX u = None)"
proof -
  have h: "exchangeName binance_ssm_payload = ''binance''"
    "credentialKind binance_ssm_payload = ''ssm''"
    "credentialBag binance_ssm_payload ''apiKeyPath'' = Some (JString ''/a'')"
    "credentialBag binance_ssm_payload ''apiSecretPath'' = Some (JString ''/b'')"
    by (simp_all add: binance_ssm_payload_def)
  have lower: "ToLower asciiStrings ''binance'' = ''binance''"
    by code_simp
  from parse_then_ToUnified_binance_ssm [of "decodesTo binance_ssm_payload" "[]"
      binance_ssm_payload asciiStrings binance_ssm_payload,
      OF decodesTo_Inr h parse_binance_ssm lower] h parse_binance_ssm lower
  show ?thesis by simp
qed

subsection \<open>C6: OKX with inline credentials\<close>

text \<open>
  Claim C6. For an instruction whose lower-cased exchange name is \<open>okx\<close>, with credential kind
  \<open>inline\<close> and a bag that holds strings under \<open>apiKey\<close>, \<open>apiSecret\<close> and \<open>passphrase\<close>, and
  whose amounts parse: \<open>ToUnified\<close> succeeds, the plan holds an OKX record with its three
  paths empty and an OKX inline record with the three strings of the bag.
\<close>

theorem ToUnified_okx_inline:
  assumes "ToLower strings (exchangeName p) = ''okx''" and "credentialKind p = ''inline''"
    and "credentialBag p ''apiKey'' = Some (JString k)"
    and "credentialBag p ''apiSecret'' = Some (JString s)"
    and "credentialBag p ''passphrase'' = Some (JString pp)"
    and "NewFromString (quoteAmountText p) = Inr qa"
    and "thresholdText p = [] \<or> (\<exists>bt. NewFromString (thresholdText p) = Inr bt)"
  shows "\<exists>u. ToUnified strings p = Inr u
           \<and> Unified.OKX u = Some \<lparr>Unified_OKX.APIKeyPath = [], Unified_OKX.APISecretPath = [],
                                  Unified_OKX.PassphrasePath = []\<rparr>
           \<and> Unified.OKXInline u = Some \<lparr>Unified_OKXInline.APIKey = k,
                                        Unified_OKXInline.APISecret = s,
                                        Unified_OKXInline.Passphrase = pp\<rparr>"
  using assms unfolding ToUnified_plan
  by (auto simp: stringAt_def split: sum.splits)

text \<open>
  C6 on the OKX payload of the tests, its exchange written \<open>OKX\<close>.
\<close>

theorem ToUnified_okx_inline_witness:
  "ToLower asciiStrings (exchangeName okx_inline_payload) = ''okx'' \<and> credentialKind okx_inline_payload = ''inline''
   \<and> credentialBag okx_inline_payload ''apiKey'' = Some (JString ''k'')
   \<and> credentialBag okx_inline_payload ''apiSecret'' = Some (JString ''s'')
   \<and> credentialBag okx_inline_payload ''passphrase'' = Some (JString ''p'')
   \<and> (\<exists>u. ToUnified asciiStrings okx_inline_payload = Inr u
         \<and> Unified.OKX u = Some \<lparr>Unified_OKX.APIKeyPath = [], Unified_OKX.APISecretPath = [],
                                 Unified_OKX.PassphrasePath = []\<rparr>
         \<and> Unified.OKXInline u = Some \<lparr>Unified_OKXInline.APIKey = ''k'',
                                       Unified_OKXInline.APISecret = ''s'',
                                       Unified_OKXInline.Passphrase = ''p''\<rparr>)"
proof -
  have lower: "ToLower asciiStrings ''OKX'' = ''okx''"
    by code_simp
  have h: "ToLower asciiStrings (exchangeName okx_inline_payload) = ''okx''"
    "credentialKind okx_inline_payload = ''inline''"
    "credentialBag okx_inline_payload ''apiKey'' = Some (JString ''k'')"
    "credentialBag okx_inline_payload ''apiSecret'' = Some (JString ''s'')"
    "credentialBag okx_inline_payload ''passphrase'' = Some (JString ''p'')"
    by (simp_all add: okx_inline_payload_def lower)
  have qa: "NewFromString (quoteAmountText okx_inline_payload) = Inr \<lparr>dec_value = 2050, dec_exp = - 2\<rparr>"
    by (simp add: okx_inline_payload_def decimal_20_50)
  have bt: "thresholdText okx_inline_payload = [] \<or>
      (\<exists>bt. NewFromString (thresholdText okx_inline_payload) = Inr bt)"
    by (simp add: okx_inline_payload_def)
  from ToUnified_okx_inline [OF h qa bt] h show ?thesis by simp
qed

subsection \<open>C7: the symbol of the legacy adapter\<close>

text \<open>
  Claim C7, as amended. For a legacy payload that passes the version and the exchange check:
  when \<open>dca.symbol\<close>, trimmed of surrounding white space and upper-cased, is not empty, the
  symbol step does not fail and the symbol of a returned plan is that trimmed, upper-cased
  text; when it is empty and \<open>dca.targetAsset\<close> and \<open>dca.orderCurrency\<close> are both non-empty
  (as they stand, untrimmed), the step does not fail and the symbol of a returned plan is
  the upper-cased target asset, a hyphen, and the upper-cased order currency; when it is
  empty and one of the two others is empty, the call fails with the error of the missing
  symbol.
\<close>

theorem legacy_symbol_resolution:
  assumes "unmarshal raw = Inr v2" and "ToLower strings (PayloadV2.Version v2) = ''v2''"
    and "ToLower strings (TrimSpace strings (PayloadV2.Exchange v2)) \<noteq> []"
  shows "(ToUpper strings (TrimSpace strings (PayloadV2_DCA.Symbol (DCA v2))) \<noteq> [] \<longrightarrow>
            ParseUnifiedV2 strings unmarshal raw \<noteq> Inl DcaSymbolRequired \<and>
            (\<forall>u. ParseUnifiedV2 strings unmarshal raw = Inr u \<longrightarrow>
               Unified.Symbol u =
                 ToUpper strings (TrimSpace strings (PayloadV2_DCA.Symbol (DCA v2)))))
       \<and> (ToUpper strings (TrimSpace strings (PayloadV2_DCA.Symbol (DCA v2))) = [] \<and>
          TargetAsset (DCA v2) \<noteq> [] \<and> OrderCurrency (DCA v2) \<noteq> [] \<longrightarrow>
            ParseUnifiedV2 strings unmarshal raw \<noteq> Inl DcaSymbolRequired \<and>
            (\<forall>u. ParseUnifiedV2 strings unmarshal raw = Inr u \<longrightarrow>
               Unified.Symbol u =
                 ToUpper strings (TargetAsset (DCA v2)) @ ''-'' @
                 ToUpper strings (OrderCurrency (DCA v2))))
       \<and> (ToUpper strings (TrimSpace strings (PayloadV2_DCA.Symbol (DCA v2))) = [] \<and>
          (TargetAsset (DCA v2) = [] \<or> OrderCurrency (DCA v2) = []) \<longrightarrow>
            ParseUnifiedV2 strings unmarshal raw = Inl DcaSymbolRequired)"
  using assms(2,3)
  unfolding ParseUnifiedV2_plan [where unmarshal = unmarshal and raw = raw, OF assms(1)]
  by (auto split: sum.splits if_splits)

text \<open>
  C7, as amended, on the legacy example of the specification, once with the symbol
  \<open>eth-usdt\<close> between blanks and once without a symbol.
\<close>

theorem legacy_symbol_resolution_witness:
  "(\<exists>u. ParseUnifiedV2 asciiStrings (decodesTo (legacy_payload ''Binance'' '' eth-usdt '' ''10''
            no_credentials None)) [] = Inr u \<and> Unified.Symbol u = ''ETH-USDT'')
   \<and> (\<exists>u. ParseUnifiedV2 asciiStrings (decodesTo (legacy_payload ''Binance'' [] ''10''
            no_credentials None)) [] = Inr u \<and> Unified.Symbol u = ''BTC-USDT'')"
proof -
  let ?padded = "legacy_payload ''Binance'' '' eth-usdt '' ''10'' no_credentials None"
  let ?pair = "legacy_payload ''Binance'' [] ''10'' no_credentials None"
  have version: "ToLower asciiStrings (PayloadV2.Version ?padded) = ''v2''"
    "ToLower asciiStrings (PayloadV2.Version ?pair) = ''v2''"
    by (simp_all add: legacy_payload_def lower_v2)
  have exchange: "ToLower asciiStrings (TrimSpace asciiStrings (PayloadV2.Exchange ?padded)) \<noteq> []"
    "ToLower asciiStrings (TrimSpace asciiStrings (PayloadV2.Exchange ?pair)) \<noteq> []"
    by code_simp+
  have trimmed:
    "ToUpper asciiStrings (TrimSpace asciiStrings (PayloadV2_DCA.Symbol (DCA ?padded))) = ''ETH-USDT''"
    "ToUpper asciiStrings (TrimSpace asciiStrings (PayloadV2_DCA.Symbol (DCA ?pair))) = []"
    by code_simp+
  have upper: "ToUpper asciiStrings ''btc'' = ''BTC''" "ToUpper asciiStrings ''usdt'' = ''USDT''"
    by code_simp+
  have pair: "TargetAsset (DCA ?pair) = ''btc''" "OrderCurrency (DCA ?pair) = ''usdt''"
    by (simp_all add: legacy_payload_def)
  note a = legacy_symbol_resolution [of "decodesTo ?padded" "[]" ?padded asciiStrings,
      OF decodesTo_Inr version(1) exchange(1),
      THEN conjunct1, rule_format, THEN conjunct2, rule_format, OF _ run_legacy_padded]
  note b = legacy_symbol_resolution [of "decodesTo ?pair" "[]" ?pair asciiStrings,
      OF decodesTo_Inr version(2) exchange(2),
      THEN conjunct2, THEN conjunct1, rule_format, THEN conjunct2, rule_format,
      OF _ run_legacy_pair]
  from a trimmed(1) have first: "\<exists>u. ParseUnifiedV2 asciiStrings (decodesTo ?padded) [] = Inr u \<and>
      Unified.Symbol u = ''ETH-USDT''"
    by (simp add: run_legacy_padded)
  from b trimmed(2) pair have second: "\<exists>u. ParseUnifiedV2 asciiStrings (decodesTo ?pair) [] = Inr u \<and>
      Unified.Symbol u = ''BTC-USDT''"
    by (simp add: run_legacy_pair upper)
  from first second show ?thesis ..
qed

text \<open>
  Claim C7 as stated, a non-empty \<open>dca.symbol\<close> is taken upper-cased, fails on symbols with
  surrounding blanks. The non-empty symbol \<open>eth-usdt\<close> between two blanks gives the plan
  symbol \<open>ETH-USDT\<close>, which is not its upper-casing; and the non-empty symbol of two blanks
  is passed over for the pair of target asset and order currency.
\<close>

theorem legacy_symbol_not_only_upper_cased:
  "ParseUnifiedV2 asciiStrings (decodesTo (legacy_payload ''Binance'' '' eth-usdt '' ''10'' no_credentials None)) []
     = Inr
     \<lparr>Unified.Exchange = ''binance'', Unified.Symbol = ''ETH-USDT'',
      Unified.QuoteAmount = \<lparr>dec_value = 10, dec_exp = 0\<rparr>,
      Unified.BalanceThreshold = \<lparr>dec_value = 0, dec_exp = 1\<rparr>,
      Unified.DryRun = False, Unified.OKX = None, Unified.OKXInline = None,
      Unified.Binance = None, Unified.Telegram = None\<rparr>
   \<and> ToUpper asciiStrings '' eth-usdt '' = '' ETH-USDT ''
   \<and> ParseUnifiedV2 asciiStrings (decodesTo (legacy_payload ''Binance'' ''  '' ''10'' no_credentials None)) []
     = Inr
     \<lparr>Unified.Exchange = ''binance'', Unified.Symbol = ''BTC-USDT'',
      Unified.QuoteAmount = \<lparr>dec_value = 10, dec_exp = 0\<rparr>,
      Unified.BalanceThreshold = \<lparr>dec_value = 0, dec_exp = 1\<rparr>,
      Unified.DryRun = False, Unified.OKX = None, Unified.OKXInline = None,
      Unified.Binance = None, Unified.Telegram = None\<rparr>
   \<and> ToUpper asciiStrings ''  '' = ''  ''"
  by code_simp

subsection \<open>C8: blanks on the nested path\<close>

text \<open>
  Claim C8. On the nested path nothing is trimmed. A decoded payload with version \<open>v2\<close>, a
  non-empty exchange name and symbol, be they of white space only, and amounts that parse is
  accepted by \<open>ParseDCAPayload\<close>; \<open>ToUnified\<close> of the result succeeds, with the lower-cased
  name as exchange and the upper-cased symbol as symbol. The errors of a missing exchange
  name, symbol or quote amount are returned for the empty string only. Neither function
  calls \<open>strings.TrimSpace\<close>: their results are the same whatever that function computes.
  The legacy adapter, for a payload with version \<open>v2\<close>, fails with the error of the missing
  exchange exactly when the exchange, trimmed and lower-cased, is empty.
\<close>

theorem nested_path_keeps_blanks:
  "(\<forall>p0. unmarshal raw = Inr p0 \<and> ToLower strings (DCAPayload.Version p0) = ''v2'' \<and>
        exchangeName p0 \<noteq> [] \<and> strategySymbol p0 \<noteq> [] \<and>
        (\<exists>qa. NewFromString (quoteAmountText p0) = Inr qa) \<and>
        (thresholdText p0 = [] \<or> (\<exists>bt. NewFromString (thresholdText p0) = Inr bt)) \<longrightarrow>
        (\<exists>p u. ParseDCAPayload strings unmarshal raw = Inr p \<and> ToUnified strings p = Inr u \<and>
           Unified.Exchange u = ToLower strings (exchangeName p0) \<and>
           Unified.Symbol u = ToUpper strings (strategySymbol p0)))
   \<and> (\<forall>p0. unmarshal raw = Inr p0 \<longrightarrow>
        (ParseDCAPayload strings unmarshal raw = Inl ExchangeNameRequired \<longrightarrow>
           exchangeName p0 = []) \<and>
        (ParseDCAPayload strings unmarshal raw = Inl StrategySymbolRequired \<longrightarrow>
           strategySymbol p0 = []) \<and>
        (ParseDCAPayload strings unmarshal raw = Inl StrategyQuoteAmountRequired \<longrightarrow>
           quoteAmountText p0 = []))
   \<and> (\<forall>trim q. ParseDCAPayload (strings\<lparr>TrimSpace := trim\<rparr>) unmarshal raw =
          ParseDCAPayload strings unmarshal raw \<and>
        ToUnified (strings\<lparr>TrimSpace := trim\<rparr>) q = ToUnified strings q)
   \<and> (\<forall>v2. unmarshal' raw' = Inr v2 \<and> ToLower strings (PayloadV2.Version v2) = ''v2'' \<longrightarrow>
        (ParseUnifiedV2 strings unmarshal' raw' = Inl ExchangeRequired \<longleftrightarrow>
           ToLower strings (TrimSpace strings (PayloadV2.Exchange v2)) = []))"
proof (intro conjI allI impI)
  fix p0
  assume a: "unmarshal raw = Inr p0 \<and> ToLower strings (DCAPayload.Version p0) = ''v2'' \<and>
        exchangeName p0 \<noteq> [] \<and> strategySymbol p0 \<noteq> [] \<and>
        (\<exists>qa. NewFromString (quoteAmountText p0) = Inr qa) \<and>
        (thresholdText p0 = [] \<or> (\<exists>bt. NewFromString (thresholdText p0) = Inr bt))"
  then have d: "unmarshal raw = Inr p0" by simp
  define p where "p = (if OrderType (Strategy p0) = []
            then p0\<lparr>Strategy := (Strategy p0)\<lparr>OrderType := ''market''\<rparr>\<rparr> else p0)"
  from a have parse: "ParseDCAPayload strings unmarshal raw = Inr p"
    unfolding ParseDCAPayload_Inr_iff [where unmarshal = unmarshal and raw = raw, OF d] p_def
    by simp
  have same: "exchangeName p = exchangeName p0" "strategySymbol p = strategySymbol p0"
    "quoteAmountText p = quoteAmountText p0" "thresholdText p = thresholdText p0"
    by (simp_all add: p_def)
  from a have "\<exists>u. ToUnified strings p = Inr u \<and>
      Unified.Exchange u = ToLower strings (exchangeName p0) \<and>
      Unified.Symbol u = ToUpper strings (strategySymbol p0)"
    unfolding ToUnified_plan same by (auto split: sum.splits)
  with parse show "\<exists>p u. ParseDCAPayload strings unmarshal raw = Inr p \<and>
           ToUnified strings p = Inr u \<and>
           Unified.Exchange u = ToLower strings (exchangeName p0) \<and>
           Unified.Symbol u = ToUpper strings (strategySymbol p0)"
    by blast
next
  fix p0 assume d: "unmarshal raw = Inr p0"
  { assume "ParseDCAPayload strings unmarshal raw = Inl ExchangeNameRequired"
    with d show "exchangeName p0 = []"
      by (auto simp: ParseDCAPayload_def split: sum.splits if_splits) }
  { assume "ParseDCAPayload strings unmarshal raw = Inl StrategySymbolRequired"
    with d show "strategySymbol p0 = []"
      by (auto simp: ParseDCAPayload_def split: sum.splits if_splits) }
  { assume "ParseDCAPayload strings unmarshal raw = Inl StrategyQuoteAmountRequired"
    with d show "quoteAmountText p0 = []"
      by (auto simp: ParseDCAPayload_def split: sum.splits if_splits) }
next
  fix trim
  show "ParseDCAPayload (strings\<lparr>TrimSpace := trim\<rparr>) unmarshal raw =
          ParseDCAPayload strings unmarshal raw"
    by (cases "unmarshal raw") (simp_all add: ParseDCAPayload_def)
next
  fix trim q
  show "ToUnified (strings\<lparr>TrimSpace := trim\<rparr>) q = ToUnified strings q"
    by (simp add: ToUnified_plan split: sum.splits)
next
  fix v2
  assume a: "unmarshal' raw' = Inr v2 \<and> ToLower strings (PayloadV2.Version v2) = ''v2''"
  then have d: "unmarshal' raw' = Inr v2" by simp
  from a show "ParseUnifiedV2 strings unmarshal' raw' = Inl ExchangeRequired \<longleftrightarrow>
           ToLower strings (TrimSpace strings (PayloadV2.Exchange v2)) = []"
    unfolding ParseUnifiedV2_plan [where unmarshal = unmarshal' and raw = raw', OF d]
    by (auto split: sum.splits if_splits)
qed

text \<open>
  C8 on a nested payload whose exchange name is two blanks and whose symbol is one blank, both
  kept as they are in the plan, and on a legacy payload whose exchange is two blanks, which
  is rejected.
\<close>

theorem nested_path_keeps_blanks_witness:
  "exchangeName blank_names_payload = ''  '' \<and> strategySymbol blank_names_payload = '' ''
   \<and> (\<exists>p u. ParseDCAPayload asciiStrings (decodesTo blank_names_payload) [] = Inr p \<and>
         ToUnified asciiStrings p = Inr u \<and>
         Unified.Exchange u = ''  '' \<and> Unified.Symbol u = '' '')
   \<and> ParseUnifiedV2 asciiStrings
        (decodesTo (legacy_payload ''  '' ''BTC-USDT'' ''10'' no_credentials None)) []
       = Inl ExchangeRequired"
proof -
  let ?v2 = "legacy_payload ''  '' ''BTC-USDT'' ''10'' no_credentials None"
  have names: "exchangeName blank_names_payload = ''  ''" "strategySymbol blank_names_payload = '' ''"
    by (simp_all add: blank_names_payload_def)
  have mapped: "ToLower asciiStrings ''  '' = ''  ''" "ToUpper asciiStrings '' '' = '' ''"
    by code_simp+
  have valid: "decodesTo blank_names_payload [] = Inr blank_names_payload \<and>
        ToLower asciiStrings (DCAPayload.Version blank_names_payload) = ''v2'' \<and>
        exchangeName blank_names_payload \<noteq> [] \<and> strategySymbol blank_names_payload \<noteq> [] \<and>
        (\<exists>qa. NewFromString (quoteAmountText blank_names_payload) = Inr qa) \<and>
        (thresholdText blank_names_payload = [] \<or>
         (\<exists>bt. NewFromString (thresholdText blank_names_payload) = Inr bt))"
    by (simp add: decodesTo_Inr blank_names_payload_def lower_v2 decimal_10)
  have legacy: "decodesTo ?v2 [] = Inr ?v2 \<and> ToLower asciiStrings (PayloadV2.Version ?v2) = ''v2''"
    by (simp add: decodesTo_Inr legacy_payload_def lower_v2)
  have trimmed: "ToLower asciiStrings (TrimSpace asciiStrings (PayloadV2.Exchange ?v2)) = []"
    by code_simp
  note a = nested_path_keeps_blanks [where strings = asciiStrings
      and unmarshal = "decodesTo blank_names_payload" and raw = "[]"
      and unmarshal' = "decodesTo ?v2" and raw' = "[]",
      THEN conjunct1, rule_format, OF valid]
  note b = nested_path_keeps_blanks [where strings = asciiStrings
      and unmarshal = "decodesTo blank_names_payload" and raw = "[]"
      and unmarshal' = "decodesTo ?v2" and raw' = "[]",
      THEN conjunct2, THEN conjunct2, THEN conjunct2, rule_format, OF legacy]
  from a names mapped
  have "\<exists>p u. ParseDCAPayload asciiStrings (decodesTo blank_names_payload) [] = Inr p \<and>
         ToUnified asciiStrings p = Inr u \<and>
         Unified.Exchange u = ''  '' \<and> Unified.Symbol u = '' ''"
    by auto
  with names b trimmed show ?thesis by simp
qed

subsection \<open>C9: what the legacy adapter leaves out\<close>

text \<open>
  Claim C9. The result of \<open>ParseUnifiedV2\<close> does not depend on the \<open>env\<close> block of the OKX
  credentials, on the \<open>inline\<close> and \<open>env\<close> blocks of the Binance credentials, or on the
  \<open>inline\<close> and \<open>env\<close> blocks of the Telegram notification: replacing them by anything else
  in the decoded payload gives the same result. The \<open>inline\<close> block of the OKX credentials is
  carried into the plan as its OKX inline record.
\<close>

theorem legacy_drops_inline_and_env:
  assumes "unmarshal raw = Inr v2"
    and "unmarshal' raw' = Inr (v2
      \<lparr>PayloadV2.Credentials :=
         \<lparr>PayloadV2_Credentials.OKX =
            map_option (\<lambda>okx. okx\<lparr>PayloadV2_OKX.Env := okxEnv\<rparr>)
              (PayloadV2_Credentials.OKX (PayloadV2.Credentials v2)),
          PayloadV2_Credentials.Binance =
            map_option (\<lambda>bin. bin\<lparr>PayloadV2_Binance.Inline := binInline,
                                  PayloadV2_Binance.Env := binEnv\<rparr>)
              (PayloadV2_Credentials.Binance (PayloadV2.Credentials v2))\<rparr>,
       PayloadV2.Notifications :=
         \<lparr>PayloadV2_Notifications.Telegram =
            map_option (\<lambda>tg. tg\<lparr>PayloadV2_Telegram.Inline := tgInline,
                                PayloadV2_Telegram.Env := tgEnv\<rparr>)
              (PayloadV2_Notifications.Telegram (PayloadV2.Notifications v2))\<rparr>\<rparr>)"
  shows "ParseUnifiedV2 strings unmarshal' raw' = ParseUnifiedV2 strings unmarshal raw
       \<and> (\<forall>u okx inl. ParseUnifiedV2 strings unmarshal raw = Inr u \<and>
            PayloadV2_Credentials.OKX (PayloadV2.Credentials v2) = Some okx \<and>
            PayloadV2_OKX.Inline okx = Some inl \<longrightarrow>
            Unified.OKXInline u = Some
              \<lparr>Unified_OKXInline.APIKey = PayloadV2_OKX_Inline.APIKey inl,
               Unified_OKXInline.APISecret = PayloadV2_OKX_Inline.APISecret inl,
               Unified_OKXInline.Passphrase = PayloadV2_OKX_Inline.Passphrase inl\<rparr>)"
proof
  show "ParseUnifiedV2 strings unmarshal' raw' = ParseUnifiedV2 strings unmarshal raw"
    unfolding ParseUnifiedV2_plan [where unmarshal = unmarshal and raw = raw, OF assms(1)]
      ParseUnifiedV2_plan [where unmarshal = unmarshal' and raw = raw', OF assms(2)]
    by (simp split: sum.splits option.splits)
  show "\<forall>u okx inl. ParseUnifiedV2 strings unmarshal raw = Inr u \<and>
            PayloadV2_Credentials.OKX (PayloadV2.Credentials v2) = Some okx \<and>
            PayloadV2_OKX.Inline okx = Some inl \<longrightarrow>
            Unified.OKXInline u = Some
              \<lparr>Unified_OKXInline.APIKey = PayloadV2_OKX_Inline.APIKey inl,
               Unified_OKXInline.APISecret = PayloadV2_OKX_Inline.APISecret inl,
               Unified_OKXInline.Passphrase = PayloadV2_OKX_Inline.Passphrase inl\<rparr>"
    unfolding ParseUnifiedV2_plan [where unmarshal = unmarshal and raw = raw, OF assms(1)]
    by (auto split: sum.splits if_splits)
qed

text \<open>
  C9 on a legacy payload that holds all of these blocks, against the same payload without
  them.
\<close>

theorem legacy_drops_inline_and_env_witness:
  "ParseUnifiedV2 asciiStrings (decodesTo ((legacy_payload ''binance'' [] ''10'' both_credentials (Some telegram_block))
      \<lparr>PayloadV2.Credentials :=
         \<lparr>PayloadV2_Credentials.OKX =
            map_option (\<lambda>okx. okx\<lparr>PayloadV2_OKX.Env := None\<rparr>)
              (PayloadV2_Credentials.OKX (PayloadV2.Credentials
                 (legacy_payload ''binance'' [] ''10'' both_credentials (Some telegram_block)))),
          PayloadV2_Credentials.Binance =
            map_option (\<lambda>bin. bin\<lparr>PayloadV2_Binance.Inline := None,
                                  PayloadV2_Binance.Env := None\<rparr>)
              (PayloadV2_Credentials.Binance (PayloadV2.Credentials
                 (legacy_payload ''binance'' [] ''10'' both_credentials (Some telegram_block))))\<rparr>,
       PayloadV2.Notifications :=
         \<lparr>PayloadV2_Notifications.Telegram =
            map_option (\<lambda>tg. tg\<lparr>PayloadV2_Telegram.Inline := None,
                                PayloadV2_Telegram.Env := None\<rparr>)
              (PayloadV2_Notifications.Telegram (PayloadV2.Notifications
                 (legacy_payload ''binance'' [] ''10'' both_credentials (Some telegram_block))))\<rparr>\<rparr>)) []
     = ParseUnifiedV2 asciiStrings (decodesTo (legacy_payload ''binance'' [] ''10'' both_credentials
         (Some telegram_block))) []
   \<and> (\<exists>u. ParseUnifiedV2 asciiStrings (decodesTo (legacy_payload ''binance'' [] ''10'' both_credentials
         (Some telegram_block))) [] = Inr u \<and>
        Unified.OKXInline u = Some \<lparr>Unified_OKXInline.APIKey = ''k'',
          Unified_OKXInline.APISecret = ''s'', Unified_OKXInline.Passphrase = ''p''\<rparr>)"
proof -
  let ?v2 = "legacy_payload ''binance'' [] ''10'' both_credentials (Some telegram_block)"
  let ?inl = "\<lparr>PayloadV2_OKX_Inline.APIKey = ''k'',
        PayloadV2_OKX_Inline.APISecret = ''s'', PayloadV2_OKX_Inline.Passphrase = ''p''\<rparr>"
  let ?stripped = "?v2
      \<lparr>PayloadV2.Credentials :=
         \<lparr>PayloadV2_Credentials.OKX =
            map_option (\<lambda>okx. okx\<lparr>PayloadV2_OKX.Env := None\<rparr>)
              (PayloadV2_Credentials.OKX (PayloadV2.Credentials ?v2)),
          PayloadV2_Credentials.Binance =
            map_option (\<lambda>bin. bin\<lparr>PayloadV2_Binance.Inline := None,
                                  PayloadV2_Binance.Env := None\<rparr>)
              (PayloadV2_Credentials.Binance (PayloadV2.Credentials ?v2))\<rparr>,
       PayloadV2.Notifications :=
         \<lparr>PayloadV2_Notifications.Telegram =
            map_option (\<lambda>tg. tg\<lparr>PayloadV2_Telegram.Inline := None,
                                PayloadV2_Telegram.Env := None\<rparr>)
              (PayloadV2_Notifications.Telegram (PayloadV2.Notifications ?v2))\<rparr>\<rparr>"
  note inst = legacy_drops_inline_and_env [of "decodesTo ?v2" "[]" ?v2 "decodesTo ?stripped" "[]"
      None None None None None asciiStrings,
      OF decodesTo_Inr decodesTo_Inr]
  have okx: "PayloadV2_Credentials.OKX (PayloadV2.Credentials ?v2) = Some okx_block"
    "PayloadV2_OKX.Inline okx_block = Some ?inl"
    by (simp_all add: legacy_payload_def both_credentials_def okx_block_def)
  note carried = inst [THEN conjunct2, rule_format,
      OF conjI [OF run_legacy_both conjI [OF okx]]]
  from inst [THEN conjunct1] carried run_legacy_both show ?thesis
    by simp
qed

subsection \<open>C10: the Telegram record of the unifier\<close>

text \<open>
  Claim C10. For an instruction that has a Telegram block and whose amounts parse,
  \<open>ToUnified\<close> succeeds with a Telegram record; its chat id is the string the block's bag
  holds under \<open>chatId\<close>, whatever the tag of the block is; its bot token path is the string
  the bag holds under \<open>botTokenPath\<close> when the tag is \<open>ssm\<close>, and is empty for every other
  tag; its sink is empty. The legacy adapter does set the sink, to the trimmed and lower-cased
  sink of the payload's Telegram block.
\<close>

theorem ToUnified_telegram_record:
  "(\<forall>tg. telegramBlock p = Some tg \<and> (\<exists>qa. NewFromString (quoteAmountText p) = Inr qa) \<and>
       (thresholdText p = [] \<or> (\<exists>bt. NewFromString (thresholdText p) = Inr bt)) \<longrightarrow>
       (\<exists>u t. ToUnified strings p = Inr u \<and> Unified.Telegram u = Some t \<and>
          (\<forall>s. TelegramConfig.Config tg ''chatId'' = Some (JString s) \<longrightarrow>
               Unified_Telegram.ChatID t = s) \<and>
          (\<forall>s. TelegramConfig.Type tg = ''ssm'' \<and>
               TelegramConfig.Config tg ''botTokenPath'' = Some (JString s) \<longrightarrow>
               Unified_Telegram.BotTokenPath t = s) \<and>
          (TelegramConfig.Type tg \<noteq> ''ssm'' \<longrightarrow> Unified_Telegram.BotTokenPath t = []) \<and>
          Unified_Telegram.Sink t = []))
   \<and> (\<forall>v2 tg u. unmarshal raw = Inr v2 \<and> ParseUnifiedV2 strings unmarshal raw = Inr u \<and>
         PayloadV2_Notifications.Telegram (PayloadV2.Notifications v2) = Some tg \<longrightarrow>
         (\<exists>t. Unified.Telegram u = Some t \<and>
            Unified_Telegram.Sink t = ToLower strings (TrimSpace strings (PayloadV2_Telegram.Sink tg))))"
proof (intro conjI allI impI)
  fix tg
  assume "telegramBlock p = Some tg \<and> (\<exists>qa. NewFromString (quoteAmountText p) = Inr qa) \<and>
       (thresholdText p = [] \<or> (\<exists>bt. NewFromString (thresholdText p) = Inr bt))"
  then show "\<exists>u t. ToUnified strings p = Inr u \<and> Unified.Telegram u = Some t \<and>
          (\<forall>s. TelegramConfig.Config tg ''chatId'' = Some (JString s) \<longrightarrow>
               Unified_Telegram.ChatID t = s) \<and>
          (\<forall>s. TelegramConfig.Type tg = ''ssm'' \<and>
               TelegramConfig.Config tg ''botTokenPath'' = Some (JString s) \<longrightarrow>
               Unified_Telegram.BotTokenPath t = s) \<and>
          (TelegramConfig.Type tg \<noteq> ''ssm'' \<longrightarrow> Unified_Telegram.BotTokenPath t = []) \<and>
          Unified_Telegram.Sink t = []"
    unfolding ToUnified_plan by (auto simp: stringAt_def split: sum.splits)
next
  fix v2 tg u
  assume a: "unmarshal raw = Inr v2 \<and> ParseUnifiedV2 strings unmarshal raw = Inr u \<and>
         PayloadV2_Notifications.Telegram (PayloadV2.Notifications v2) = Some tg"
  then have d: "unmarshal raw = Inr v2" by simp
  from a show "\<exists>t. Unified.Telegram u = Some t \<and>
            Unified_Telegram.Sink t = ToLower strings (TrimSpace strings (PayloadV2_Telegram.Sink tg))"
    unfolding ParseUnifiedV2_plan [where unmarshal = unmarshal and raw = raw, OF d]
    by (auto split: sum.splits if_splits)
qed

text \<open>
  C10 on the OKX payload of the tests, given a Telegram block with the tag \<open>webhook\<close> that
  holds a chat id and a bot token path, and on a legacy payload whose sink is \<open>StdOut\<close>
  between blanks.
\<close>

theorem ToUnified_telegram_record_witness:
  "(\<exists>tg u t. telegramBlock okx_inline_payload = Some tg \<and> TelegramConfig.Type tg = ''webhook'' \<and>
       ToUnified asciiStrings okx_inline_payload = Inr u \<and> Unified.Telegram u = Some t \<and>
       Unified_Telegram.ChatID t = ''123456789'' \<and> Unified_Telegram.BotTokenPath t = [] \<and>
       Unified_Telegram.Sink t = [])
   \<and> (\<exists>u t. ParseUnifiedV2 asciiStrings (decodesTo (legacy_payload ''binance'' [] ''10'' both_credentials
                (Some telegram_block))) [] = Inr u \<and>
         Unified.Telegram u = Some t \<and> Unified_Telegram.Sink t = ''stdout'')"
proof -
  let ?tg = "\<lparr>TelegramConfig.Type = ''webhook'',
            TelegramConfig.Config =
              [''chatId'' \<mapsto> JString ''123456789'', ''botTokenPath'' \<mapsto> JString ''/tg/token'']\<rparr>"
  let ?v2 = "legacy_payload ''binance'' [] ''10'' both_credentials (Some telegram_block)"
  have block: "telegramBlock okx_inline_payload = Some ?tg"
    by (simp add: okx_inline_payload_def)
  have valid: "(\<exists>qa. NewFromString (quoteAmountText okx_inline_payload) = Inr qa) \<and>
       (thresholdText okx_inline_payload = [] \<or>
        (\<exists>bt. NewFromString (thresholdText okx_inline_payload) = Inr bt))"
    by (simp add: okx_inline_payload_def decimal_20_50)
  note unifier = ToUnified_telegram_record [where strings = asciiStrings
      and p = okx_inline_payload and unmarshal = "decodesTo ?v2" and raw = "[]", THEN conjunct1,
      rule_format, OF conjI [OF block valid]]
  then have first: "\<exists>tg u t. telegramBlock okx_inline_payload = Some tg \<and>
       TelegramConfig.Type tg = ''webhook'' \<and>
       ToUnified asciiStrings okx_inline_payload = Inr u \<and> Unified.Telegram u = Some t \<and>
       Unified_Telegram.ChatID t = ''123456789'' \<and> Unified_Telegram.BotTokenPath t = [] \<and>
       Unified_Telegram.Sink t = []"
    using block by auto
  have sink: "ToLower asciiStrings (TrimSpace asciiStrings (PayloadV2_Telegram.Sink telegram_block)) = ''stdout''"
    by code_simp
  have tg: "PayloadV2_Notifications.Telegram (PayloadV2.Notifications ?v2) = Some telegram_block"
    by (simp add: legacy_payload_def)
  note legacy = ToUnified_telegram_record [where strings = asciiStrings
      and p = okx_inline_payload and unmarshal = "decodesTo ?v2" and raw = "[]", THEN conjunct2,
      rule_format, OF conjI [OF decodesTo_Inr conjI [OF run_legacy_both tg]]]
  then have second: "\<exists>u t. ParseUnifiedV2 asciiStrings (decodesTo ?v2) [] = Inr u \<and>
         Unified.Telegram u = Some t \<and> Unified_Telegram.Sink t = ''stdout''"
    using run_legacy_both unfolding sink by blast
  from first second show ?thesis ..
qed

end
